theory Spec2Isabelle
  imports Complex_Main "HOL-Library.Multiset"
begin

section \<open>Zoo Planner: the placement engine of \<open>src/app.js\<close>\<close>

text \<open>
  The embedding follows the second, current copy of the application in \<open>src/app.js\<close>
  (from \<open>const GRID_SIZE\<close> at line 1198 on), the one with decorations, the resize
  gesture and the URL codec.
\<close>

subsection \<open>Numbers\<close>

text \<open>
  Grid coordinates, sizes and catalog indices are JavaScript numbers. The handlers only
  ever produce integers (\<open>Math.floor\<close>, sums, differences, \<open>Math.min\<close>,
  \<open>Math.max\<close>), and \<open>parseInt\<close> adds \<open>NaN\<close>, which \<open>loadFromURL\<close> stores as it
  is. So a number is an integer or \<open>NaN\<close>; every comparison with \<open>NaN\<close> is false and
  every arithmetic operation on \<open>NaN\<close> gives \<open>NaN\<close>.
\<close>

datatype jsnum = Num int | NaN

fun isNum :: "jsnum \<Rightarrow> bool" where
  "isNum (Num _) = True"
| "isNum NaN = False"

fun ival :: "jsnum \<Rightarrow> int" where
  "ival (Num i) = i"
| "ival NaN = 0"

fun jadd :: "jsnum \<Rightarrow> jsnum \<Rightarrow> jsnum" where
  "jadd (Num a) (Num b) = Num (a + b)"
| "jadd _ _ = NaN"

fun jsub :: "jsnum \<Rightarrow> jsnum \<Rightarrow> jsnum" where
  "jsub (Num a) (Num b) = Num (a - b)"
| "jsub _ _ = NaN"

fun jmul :: "jsnum \<Rightarrow> jsnum \<Rightarrow> jsnum" where
  "jmul (Num a) (Num b) = Num (a * b)"
| "jmul _ _ = NaN"

fun jle :: "jsnum \<Rightarrow> jsnum \<Rightarrow> bool" where
  "jle (Num a) (Num b) = (a \<le> b)"
| "jle _ _ = False"

fun jlt :: "jsnum \<Rightarrow> jsnum \<Rightarrow> bool" where
  "jlt (Num a) (Num b) = (a < b)"
| "jlt _ _ = False"

definition jge :: "jsnum \<Rightarrow> jsnum \<Rightarrow> bool" where
  "jge a b = jle b a"

definition jgt :: "jsnum \<Rightarrow> jsnum \<Rightarrow> bool" where
  "jgt a b = jlt b a"

fun jmax :: "jsnum \<Rightarrow> jsnum \<Rightarrow> jsnum" where
  "jmax (Num a) (Num b) = Num (max a b)"
| "jmax _ _ = NaN"

fun jmin :: "jsnum \<Rightarrow> jsnum \<Rightarrow> jsnum" where
  "jmin (Num a) (Num b) = Num (min a b)"
| "jmin _ _ = NaN"

definition GRID_SIZE :: int where
  "GRID_SIZE = 30"

definition CELL_SIZE :: int where
  "CELL_SIZE = 20"

subsection \<open>Base 36\<close>

definition digits36 :: string where
  "digits36 = ''0123456789abcdefghijklmnopqrstuvwxyz''"

text \<open>\<open>Number.prototype.toString(36)\<close> on a non-negative integer.\<close>

fun natToBase36 :: "nat \<Rightarrow> string" where
  "natToBase36 n =
     (if n < 36 then [digits36 ! n]
      else natToBase36 (n div 36) @ [digits36 ! (n mod 36)])"

declare natToBase36.simps [simp del]

text \<open>\<open>toBase36(num) = num.toString(36)\<close>: a minus sign for a negative number, the
  text \<open>NaN\<close> for \<open>NaN\<close>.\<close>

fun toBase36 :: "jsnum \<Rightarrow> string" where
  "toBase36 (Num i) = (if i < 0 then CHR ''-'' # natToBase36 (nat (- i)) else natToBase36 (nat i))"
| "toBase36 NaN = ''NaN''"

text \<open>
  \<open>fromBase36(str) = parseInt(str, 36)\<close>: leading white space is skipped, a sign is
  read, then the longest run of base-36 digits (either case); no digit at all gives
  \<open>NaN\<close>. A \<open>char\<close> stands for one UTF-16 code unit below 256. The white space of
  \<open>parseInt\<close> in that range is the tab to carriage return, the space and the no-break
  space; its white space above 255 has no \<open>char\<close>. The value is the exact integer:
  \<open>parseInt\<close> rounds above \<open>2^53\<close>, which takes more than ten digits.
  \<open>decodeZooState\<close> only ever passes a single character.
\<close>

definition isWhite :: "char \<Rightarrow> bool" where
  "isWhite c = (c \<in> set [CHR 0x09, CHR 0x0A, CHR 0x0B, CHR 0x0C, CHR 0x0D, CHR 0x20, CHR 0xA0])"

definition digitVal :: "char \<Rightarrow> int option" where
  "digitVal c =
     (let k = of_char c :: nat in
      if 48 \<le> k \<and> k \<le> 57 then Some (int k - 48)
      else if 97 \<le> k \<and> k \<le> 122 then Some (int k - 87)
      else if 65 \<le> k \<and> k \<le> 90 then Some (int k - 55)
      else None)"

definition isDigit36 :: "char \<Rightarrow> bool" where
  "isDigit36 c = (digitVal c \<noteq> None)"

definition fromBase36 :: "string \<Rightarrow> jsnum" where
  "fromBase36 str =
     (let t = dropWhile isWhite str;
          neg = (case t of [] \<Rightarrow> False | c # _ \<Rightarrow> c = CHR ''-'');
          u = (case t of [] \<Rightarrow> [] | c # r \<Rightarrow> if c = CHR ''-'' \<or> c = CHR ''+'' then r else t);
          ds = takeWhile isDigit36 u
      in if ds = [] then NaN
         else Num ((if neg then - 1 else 1) * foldl (\<lambda>a c. a * 36 + the (digitVal c)) 0 ds))"

subsection \<open>Catalogs and the application state\<close>

text \<open>
  The catalogs \<open>BUILDINGS\<close>, \<open>DECORATIONS\<close> and \<open>ANIMALS\<close> are loaded from JSON files
  that are not part of the sources; they are a parameter of every function that reads
  them. The cosmetic fields (name, emoji, colour) are left out.
\<close>

record itemDef =
  def_id :: string
  def_width :: jsnum
  def_height :: jsnum

record animalDef =
  animal_id :: string
  minPerimeter :: jsnum
  minArea :: jsnum

record catalogs =
  BUILDINGS :: "itemDef list"
  DECORATIONS :: "itemDef list"
  ANIMALS :: "animalDef list"

text \<open>
  A placed building, a placed decoration or an enclosure: the object stored in one of the
  three arrays of \<open>state\<close>. Only an enclosure has the field \<open>animal\<close>.
\<close>

record entity =
  eid :: string
  gridX :: jsnum
  gridY :: jsnum
  width :: jsnum
  height :: jsnum
  animal :: "string option"

datatype itemType = TEnclosure | TBuilding | TDecoration

text \<open>\<open>state.movingItem\<close>; \<open>mdata\<close> is the reference to the stored object.\<close>

record moving =
  mtype :: itemType
  mid :: string
  mdata :: nat
  originalX :: jsnum
  originalY :: jsnum
  offsetX :: jsnum
  offsetY :: jsnum

record edges =
  e_left :: bool
  e_right :: bool
  e_top :: bool
  e_bottom :: bool

record geometry =
  g_gridX :: jsnum
  g_gridY :: jsnum
  g_width :: jsnum
  g_height :: jsnum

text \<open>\<open>state.resizingEnclosure\<close>; \<open>r_enclosure\<close> is the reference to the stored object.\<close>

record resizing =
  r_enclosure :: nat
  r_edge :: edges
  originalData :: geometry

record drawingRect =
  startX :: int
  startY :: int
  currentX :: int
  currentY :: int

text \<open>The \<open>onConfirm\<close> closures that \<open>handleGridMouseUp\<close> hands to \<open>showConfirmDialog\<close>.\<close>

datatype onConfirm = DeleteEnclosure string | DeleteDecoration string | DeleteBuilding string

text \<open>
  The global \<open>state\<close>. The arrays hold references into \<open>heap\<close>, since the gesture
  handlers mutate the stored objects through \<open>movingItem.data\<close> and
  \<open>resizingEnclosure.enclosure\<close>; \<open>nextRef\<close> is the next unused reference.
  \<open>dialogs\<close> are the confirmation dialogs that are open, each with its closure.
\<close>

record zoo =
  heap :: "nat \<Rightarrow> entity"
  nextRef :: nat
  selectedAnimal :: "string option"
  placedBuildings :: "nat list"
  placedDecorations :: "nat list"
  enclosures :: "nat list"
  drawing :: "drawingRect option"
  draggingBuilding :: "itemDef option"
  movingItem :: "moving option"
  moveStartPos :: "(int \<times> int) option"
  resizingEnclosure :: "resizing option"
  nextEnclosureId :: nat
  nextBuildingId :: nat
  nextDecorationId :: nat
  dialogs :: "onConfirm list"

definition buildingObjs :: "zoo \<Rightarrow> entity list" where
  "buildingObjs st = map (heap st) (placedBuildings st)"

definition decorationObjs :: "zoo \<Rightarrow> entity list" where
  "decorationObjs st = map (heap st) (placedDecorations st)"

definition enclosureObjs :: "zoo \<Rightarrow> entity list" where
  "enclosureObjs st = map (heap st) (enclosures st)"

subsection \<open>checkOverlap\<close>

text \<open>One of the three loops of \<open>checkOverlap\<close>: skip the excluded id, return at the
  first stored rectangle that is not clear of the given one.\<close>

fun overlapLoop :: "jsnum \<Rightarrow> jsnum \<Rightarrow> jsnum \<Rightarrow> jsnum \<Rightarrow> string option \<Rightarrow> entity list \<Rightarrow> bool" where
  "overlapLoop gx gy w h excludeId [] = False"
| "overlapLoop gx gy w h excludeId (b # bs) =
     (if Some (eid b) = excludeId then overlapLoop gx gy w h excludeId bs
      else if \<not> (jle (jadd gx w) (gridX b) \<or>
                  jge gx (jadd (gridX b) (width b)) \<or>
                  jle (jadd gy h) (gridY b) \<or>
                  jge gy (jadd (gridY b) (height b)))
           then True
      else overlapLoop gx gy w h excludeId bs)"

definition checkOverlap :: "zoo \<Rightarrow> jsnum \<Rightarrow> jsnum \<Rightarrow> jsnum \<Rightarrow> jsnum \<Rightarrow> string option \<Rightarrow> bool" where
  "checkOverlap st gx gy w h excludeId =
     (if overlapLoop gx gy w h excludeId (buildingObjs st) then True
      else if overlapLoop gx gy w h excludeId (decorationObjs st) then True
      else overlapLoop gx gy w h excludeId (enclosureObjs st))"

subsection \<open>The URL codec\<close>

text \<open>\<open>Array.prototype.findIndex\<close>: the first index that satisfies the test, or \<open>-1\<close>.\<close>

fun findIndex :: "('a \<Rightarrow> bool) \<Rightarrow> 'a list \<Rightarrow> int" where
  "findIndex P [] = - 1"
| "findIndex P (a # as) =
     (if P a then 0 else (let r = findIndex P as in if r < 0 then - 1 else r + 1))"

text \<open>\<open>b.id.split('-')[0]\<close>: the id up to its first hyphen.\<close>

definition typeIdOf :: "entity \<Rightarrow> string" where
  "typeIdOf b = takeWhile (\<lambda>c. c \<noteq> CHR ''-'') (eid b)"

definition typeIndexOf :: "itemDef list \<Rightarrow> entity \<Rightarrow> jsnum" where
  "typeIndexOf cat b = Num (findIndex (\<lambda>d. def_id d = typeIdOf b) cat)"

definition animalIndexOf :: "animalDef list \<Rightarrow> entity \<Rightarrow> jsnum" where
  "animalIndexOf cat e = Num (findIndex (\<lambda>a. Some (animal_id a) = animal e) cat)"

definition buildingStr :: "catalogs \<Rightarrow> zoo \<Rightarrow> string" where
  "buildingStr cats st =
     concat (map (\<lambda>b. toBase36 (typeIndexOf (BUILDINGS cats) b) @ toBase36 (gridX b) @ toBase36 (gridY b))
                 (buildingObjs st))"

definition decorationStr :: "catalogs \<Rightarrow> zoo \<Rightarrow> string" where
  "decorationStr cats st =
     concat (map (\<lambda>d. toBase36 (typeIndexOf (DECORATIONS cats) d) @ toBase36 (gridX d) @ toBase36 (gridY d))
                 (decorationObjs st))"

definition enclosureStr :: "catalogs \<Rightarrow> zoo \<Rightarrow> string" where
  "enclosureStr cats st =
     concat (map (\<lambda>e. toBase36 (animalIndexOf (ANIMALS cats) e) @ toBase36 (gridX e) @ toBase36 (gridY e) @
                       toBase36 (width e) @ toBase36 (height e))
                 (enclosureObjs st))"

text \<open>\<open>.replace(/\.+$/, '')\<close>\<close>

definition stripTrailingDots :: "string \<Rightarrow> string" where
  "stripTrailingDots s = rev (dropWhile (\<lambda>c. c = CHR ''.'') (rev s))"

definition encodeZooState :: "catalogs \<Rightarrow> zoo \<Rightarrow> string" where
  "encodeZooState cats st =
     stripTrailingDots (buildingStr cats st @ ''.'' @ decorationStr cats st @ ''.'' @ enclosureStr cats st)"

text \<open>\<open>compact.split('.')\<close>: the pieces between the dots, at least one.\<close>

fun splitDots :: "string \<Rightarrow> string list" where
  "splitDots [] = [[]]"
| "splitDots (c # cs) =
     (if c = CHR ''.'' then [] # splitDots cs
      else (case splitDots cs of p # ps \<Rightarrow> (c # p) # ps | [] \<Rightarrow> [[c]]))"

text \<open>\<open>parts[i] || ''\<close>\<close>

definition partOrEmpty :: "string list \<Rightarrow> nat \<Rightarrow> string" where
  "partOrEmpty parts i = (if i < length parts then parts ! i else [])"

record itemRec =
  typeIndex :: jsnum
  item_x :: jsnum
  item_y :: jsnum

record enclosureRec =
  animalIndex :: jsnum
  enc_x :: jsnum
  enc_y :: jsnum
  enc_w :: jsnum
  enc_h :: jsnum

record decoded =
  d_buildings :: "itemRec list"
  d_decorations :: "itemRec list"
  d_enclosures :: "enclosureRec list"

text \<open>The stride-3 loop: a record for every complete stride, nothing for a shorter rest.\<close>

fun decodeItems :: "string \<Rightarrow> itemRec list" where
  "decodeItems (a # b # c # rest) =
     \<lparr>typeIndex = fromBase36 [a], item_x = fromBase36 [b], item_y = fromBase36 [c]\<rparr> # decodeItems rest"
| "decodeItems _ = []"

text \<open>The stride-5 loop.\<close>

fun decodeEnclosures :: "string \<Rightarrow> enclosureRec list" where
  "decodeEnclosures (a # b # c # d # e # rest) =
     \<lparr>animalIndex = fromBase36 [a], enc_x = fromBase36 [b], enc_y = fromBase36 [c],
      enc_w = fromBase36 [d], enc_h = fromBase36 [e]\<rparr> # decodeEnclosures rest"
| "decodeEnclosures _ = []"

text \<open>
  \<open>decodeZooState\<close>: \<open>None\<close> is the \<open>null\<close> of the \<open>catch\<close> branch. Splitting a
  string, indexing it inside its length and \<open>parseInt\<close> do not throw, so the body of
  the \<open>try\<close> has no failing step to translate.
\<close>

definition decodeZooState :: "string \<Rightarrow> decoded option" where
  "decodeZooState compactStr =
     (let parts = splitDots compactStr;
          bs = partOrEmpty parts 0;
          ds = partOrEmpty parts 1;
          es = partOrEmpty parts 2
      in Some \<lparr>d_buildings = decodeItems bs, d_decorations = decodeItems ds,
               d_enclosures = decodeEnclosures es\<rparr>)"

subsection \<open>Inserting and deleting\<close>

text \<open>The decimal text of a counter inside a template string.\<close>

fun natToDecimal :: "nat \<Rightarrow> string" where
  "natToDecimal n =
     (if n < 10 then [digits36 ! n]
      else natToDecimal (n div 10) @ [digits36 ! (n mod 10)])"

declare natToDecimal.simps [simp del]

text \<open>
  The state of a fresh page (\<open>const state = {...}\<close>). No reference is in use, so the
  content of the heap is immaterial.
\<close>

definition noEntity :: entity where
  "noEntity = \<lparr>eid = [], gridX = NaN, gridY = NaN, width = NaN, height = NaN, animal = None\<rparr>"

definition initialState :: zoo where
  "initialState =
     \<lparr>heap = (\<lambda>_. noEntity), nextRef = 0, selectedAnimal = None,
      placedBuildings = [], placedDecorations = [], enclosures = [],
      drawing = None, draggingBuilding = None, movingItem = None, moveStartPos = None,
      resizingEnclosure = None, nextEnclosureId = 1, nextBuildingId = 1, nextDecorationId = 1,
      dialogs = []\<rparr>"

text \<open>A value is falsy for \<open>!state.selectedAnimal\<close> when it is \<open>null\<close> or the empty string.\<close>

definition noAnimalSelected :: "zoo \<Rightarrow> bool" where
  "noAnimalSelected st = (selectedAnimal st = None \<or> selectedAnimal st = Some [])"

text \<open>\<open>new Set(state.enclosures.map(e => e.animal)).has(a)\<close> for a string \<open>a\<close>.\<close>

definition animalUsed :: "zoo \<Rightarrow> string \<Rightarrow> bool" where
  "animalUsed st a = (Some a \<in> set (map animal (enclosureObjs st)))"

definition selectAnimal :: "string \<Rightarrow> zoo \<Rightarrow> zoo" where
  "selectAnimal animalId st =
     (if animalUsed st animalId then st else st\<lparr>selectedAnimal := Some animalId\<rparr>)"

text \<open>
  \<open>renderAnimalList\<close> redraws the list of animals, and it also changes
  \<open>state.selectedAnimal\<close>: the first animal is selected when none is, and a selected
  animal that has an enclosure gives way to the first one that has none.
\<close>

definition renderAnimalList :: "catalogs \<Rightarrow> zoo \<Rightarrow> zoo" where
  "renderAnimalList cats st =
     (let st1 = (case ANIMALS cats of
                   [] \<Rightarrow> st
                 | a # _ \<Rightarrow> if noAnimalSelected st then selectAnimal (animal_id a) st else st)
      in case selectedAnimal st1 of
           None \<Rightarrow> st1
         | Some sel \<Rightarrow>
             if animalUsed st sel
             then (case find (\<lambda>a. \<not> animalUsed st (animal_id a)) (ANIMALS cats) of
                     Some firstAvailable \<Rightarrow> selectAnimal (animal_id firstAvailable) st1
                   | None \<Rightarrow> st1\<lparr>selectedAnimal := None\<rparr>)
             else st1)"

definition addBuilding :: "itemDef \<Rightarrow> jsnum \<Rightarrow> jsnum \<Rightarrow> zoo \<Rightarrow> zoo" where
  "addBuilding buildingDef gx gy st =
     (let newId = def_id buildingDef @ ''-'' @ natToDecimal (nextBuildingId st);
          building = \<lparr>eid = newId, gridX = gx, gridY = gy, width = def_width buildingDef,
                      height = def_height buildingDef, animal = None\<rparr>;
          r = nextRef st
      in st\<lparr>heap := (heap st)(r := building), nextRef := Suc r,
            nextBuildingId := Suc (nextBuildingId st),
            placedBuildings := placedBuildings st @ [r]\<rparr>)"

definition addDecoration :: "itemDef \<Rightarrow> jsnum \<Rightarrow> jsnum \<Rightarrow> zoo \<Rightarrow> zoo" where
  "addDecoration decorationDef gx gy st =
     (let newId = def_id decorationDef @ ''-'' @ natToDecimal (nextDecorationId st);
          decoration = \<lparr>eid = newId, gridX = gx, gridY = gy, width = def_width decorationDef,
                        height = def_height decorationDef, animal = None\<rparr>;
          r = nextRef st
      in st\<lparr>heap := (heap st)(r := decoration), nextRef := Suc r,
            nextDecorationId := Suc (nextDecorationId st),
            placedDecorations := placedDecorations st @ [r]\<rparr>)"

definition addEnclosure :: "catalogs \<Rightarrow> jsnum \<Rightarrow> jsnum \<Rightarrow> jsnum \<Rightarrow> jsnum \<Rightarrow> zoo \<Rightarrow> zoo" where
  "addEnclosure cats gx gy w h st =
     (if noAnimalSelected st then st
      else if animalUsed st (the (selectedAnimal st)) then st
      else
        (let newId = ''enclosure-'' @ natToDecimal (nextEnclosureId st);
             enclosure = \<lparr>eid = newId, gridX = gx, gridY = gy, width = w, height = h,
                          animal = selectedAnimal st\<rparr>;
             r = nextRef st
         in renderAnimalList cats
              (st\<lparr>heap := (heap st)(r := enclosure), nextRef := Suc r,
                   nextEnclosureId := Suc (nextEnclosureId st),
                   enclosures := enclosures st @ [r]\<rparr>)))"

definition deleteBuilding :: "string \<Rightarrow> zoo \<Rightarrow> zoo" where
  "deleteBuilding i st = st\<lparr>placedBuildings := filter (\<lambda>r. eid (heap st r) \<noteq> i) (placedBuildings st)\<rparr>"

definition deleteDecoration :: "string \<Rightarrow> zoo \<Rightarrow> zoo" where
  "deleteDecoration i st = st\<lparr>placedDecorations := filter (\<lambda>r. eid (heap st r) \<noteq> i) (placedDecorations st)\<rparr>"

definition deleteEnclosure :: "catalogs \<Rightarrow> string \<Rightarrow> zoo \<Rightarrow> zoo" where
  "deleteEnclosure cats i st =
     renderAnimalList cats (st\<lparr>enclosures := filter (\<lambda>r. eid (heap st r) \<noteq> i) (enclosures st)\<rparr>)"

subsection \<open>The confirmation dialog\<close>

text \<open>
  \<open>showConfirmDialog(message, onConfirm)\<close> opens a dialog and returns; the closure runs
  later, when the Yes button of that dialog is clicked. The No button and a click beside
  the dialog only close it.
\<close>

definition showConfirmDialog :: "onConfirm \<Rightarrow> zoo \<Rightarrow> zoo" where
  "showConfirmDialog f st = st\<lparr>dialogs := dialogs st @ [f]\<rparr>"

fun runOnConfirm :: "catalogs \<Rightarrow> onConfirm \<Rightarrow> zoo \<Rightarrow> zoo" where
  "runOnConfirm cats (DeleteEnclosure i) st = deleteEnclosure cats i st"
| "runOnConfirm cats (DeleteDecoration i) st = deleteDecoration i st"
| "runOnConfirm cats (DeleteBuilding i) st = deleteBuilding i st"

definition closeDialog :: "nat \<Rightarrow> zoo \<Rightarrow> zoo" where
  "closeDialog k st = st\<lparr>dialogs := take k (dialogs st) @ drop (Suc k) (dialogs st)\<rparr>"

definition clickYes :: "catalogs \<Rightarrow> nat \<Rightarrow> zoo \<Rightarrow> zoo" where
  "clickYes cats k st =
     (if k < length (dialogs st) then runOnConfirm cats (dialogs st ! k) (closeDialog k st) else st)"

definition clickNo :: "nat \<Rightarrow> zoo \<Rightarrow> zoo" where
  "clickNo k st = (if k < length (dialogs st) then closeDialog k st else st)"

subsection \<open>Loading a zoo from the URL\<close>

text \<open>\<open>BUILDINGS[i]\<close> for a number \<open>i\<close>: \<open>undefined\<close> outside the array and for \<open>NaN\<close>.\<close>

fun catalogAt :: "'a list \<Rightarrow> jsnum \<Rightarrow> 'a option" where
  "catalogAt xs (Num i) = (if 0 \<le> i \<and> i < int (length xs) then Some (xs ! nat i) else None)"
| "catalogAt xs NaN = None"

definition loadBuilding :: "catalogs \<Rightarrow> zoo \<Rightarrow> itemRec \<Rightarrow> zoo" where
  "loadBuilding cats st bData =
     (case catalogAt (BUILDINGS cats) (typeIndex bData) of
        Some buildingDef \<Rightarrow> addBuilding buildingDef (item_x bData) (item_y bData) st
      | None \<Rightarrow> st)"

definition loadDecoration :: "catalogs \<Rightarrow> zoo \<Rightarrow> itemRec \<Rightarrow> zoo" where
  "loadDecoration cats st dData =
     (case catalogAt (DECORATIONS cats) (typeIndex dData) of
        Some decorationDef \<Rightarrow> addDecoration decorationDef (item_x dData) (item_y dData) st
      | None \<Rightarrow> st)"

definition loadEnclosure :: "catalogs \<Rightarrow> zoo \<Rightarrow> enclosureRec \<Rightarrow> zoo" where
  "loadEnclosure cats st eData =
     (let newId = ''enclosure-'' @ natToDecimal (nextEnclosureId st);
          st1 = st\<lparr>nextEnclosureId := Suc (nextEnclosureId st)\<rparr>
      in case catalogAt (ANIMALS cats) (animalIndex eData) of
           None \<Rightarrow> st1
         | Some a \<Rightarrow>
             (let enclosure = \<lparr>eid = newId, gridX = enc_x eData, gridY = enc_y eData,
                               width = enc_w eData, height = enc_h eData,
                               animal = Some (animal_id a)\<rparr>;
                  r = nextRef st1
              in st1\<lparr>heap := (heap st1)(r := enclosure), nextRef := Suc r,
                      enclosures := enclosures st1 @ [r]\<rparr>))"

text \<open>
  \<open>loadFromURL\<close>, with the value of the query parameter \<open>z\<close> as its argument (\<open>None\<close>
  when the URL has none). The result is the returned flag and the new state.
\<close>

definition loadFromURL :: "catalogs \<Rightarrow> string option \<Rightarrow> zoo \<Rightarrow> bool \<times> zoo" where
  "loadFromURL cats encoded st =
     (case encoded of
        None \<Rightarrow> (False, st)
      | Some z \<Rightarrow>
          if z = [] then (False, st)
          else
            (case decodeZooState z of
               None \<Rightarrow> (False, st)
             | Some data \<Rightarrow>
                 (let st1 = foldl (loadBuilding cats) st (d_buildings data);
                      st2 = foldl (loadDecoration cats) st1 (d_decorations data);
                      st3 = (if d_enclosures data \<noteq> []
                             then renderAnimalList cats (foldl (loadEnclosure cats) st2 (d_enclosures data))
                             else st2)
                  in (True, st3))))"

subsection \<open>Pointer events\<close>

text \<open>
  A mouse event carries the pointer position in pixels; \<open>domRect\<close> is the
  \<open>getBoundingClientRect()\<close> of the grid. Pixels are integers here, so
  \<open>Math.floor(x / CELL_SIZE)\<close> is integer division. What the browser decides is a
  parameter of the handlers: the hit test of the pointer-down event (\<open>e.target.closest\<close>)
  and the item id of a drop. So is the result of \<open>detectEnclosureEdge\<close>, which compares
  floating-point distances with \<open>0.3\<close>: the enclosure and the edges it found, if any.
\<close>

record mouseEvent =
  clientX :: int
  clientY :: int

record domRect =
  r_left :: int
  r_top :: int
  r_right :: int
  r_bottom :: int

datatype hit = HitEnclosure string | HitBuilding string | HitNothing

text \<open>\<open>getGridPoint(e)\<close>, the integer cell under the pointer, clamped to the grid.\<close>

definition getGridPoint :: "domRect \<Rightarrow> mouseEvent \<Rightarrow> int \<times> int" where
  "getGridPoint rect e =
     (let px = clientX e - r_left rect;
          py = clientY e - r_top rect
      in (max 0 (min (GRID_SIZE - 1) (px div CELL_SIZE)),
          max 0 (min (GRID_SIZE - 1) (py div CELL_SIZE))))"

definition geometryOf :: "entity \<Rightarrow> geometry" where
  "geometryOf b = \<lparr>g_gridX = gridX b, g_gridY = gridY b, g_width = width b, g_height = height b\<rparr>"

definition startMoving :: "itemType \<Rightarrow> string \<Rightarrow> nat \<Rightarrow> int \<times> int \<Rightarrow> mouseEvent \<Rightarrow> zoo \<Rightarrow> zoo" where
  "startMoving ty i r point e st =
     st\<lparr>movingItem := Some \<lparr>mtype = ty, mid = i, mdata = r,
                             originalX = gridX (heap st r), originalY = gridY (heap st r),
                             offsetX = jsub (Num (fst point)) (gridX (heap st r)),
                             offsetY = jsub (Num (snd point)) (gridY (heap st r))\<rparr>,
         moveStartPos := Some (clientX e, clientY e)\<rparr>"

definition handleGridMouseDown ::
    "domRect \<Rightarrow> (nat \<times> edges) option \<Rightarrow> hit \<Rightarrow> mouseEvent \<Rightarrow> zoo \<Rightarrow> zoo" where
  "handleGridMouseDown rect edgeDetect target e st =
     (let point = getGridPoint rect e in
      case edgeDetect of
        Some (enc, edge) \<Rightarrow>
          st\<lparr>resizingEnclosure := Some \<lparr>r_enclosure = enc, r_edge = edge,
                                         originalData = geometryOf (heap st enc)\<rparr>,
              moveStartPos := Some (clientX e, clientY e)\<rparr>
      | None \<Rightarrow>
          (case target of
             HitEnclosure i \<Rightarrow>
               (case find (\<lambda>r. eid (heap st r) = i) (enclosures st) of
                  Some r \<Rightarrow> startMoving TEnclosure i r point e st
                | None \<Rightarrow> st)
           | HitBuilding i \<Rightarrow>
               (case find (\<lambda>r. eid (heap st r) = i) (placedBuildings st) of
                  Some r \<Rightarrow> startMoving TBuilding i r point e st
                | None \<Rightarrow>
                    (case find (\<lambda>r. eid (heap st r) = i) (placedDecorations st) of
                       Some r \<Rightarrow> startMoving TDecoration i r point e st
                     | None \<Rightarrow> st))
           | HitNothing \<Rightarrow>
               if noAnimalSelected st then st
               else st\<lparr>drawing := Some \<lparr>startX = fst point, startY = snd point,
                                         currentX = fst point, currentY = snd point\<rparr>\<rparr>))"

text \<open>The candidate rectangle of a resize step, before the overlap check.\<close>

definition resizeCandidate :: "edges \<Rightarrow> entity \<Rightarrow> int \<times> int \<Rightarrow> geometry" where
  "resizeCandidate edge enc point =
     (let newX0 = gridX enc;
          newY0 = gridY enc;
          newWidth0 = width enc;
          newHeight0 = height enc;
          newWidth1 = (if e_right edge
                       then jmax (Num 1) (jadd (jsub (Num (fst point)) (gridX enc)) (Num 1))
                       else newWidth0);
          oldRight = jadd (gridX enc) (width enc);
          newX1 = (if e_left edge then jmin (Num (fst point)) (jsub oldRight (Num 1)) else newX0);
          newWidth2 = (if e_left edge then jsub oldRight newX1 else newWidth1);
          newHeight1 = (if e_bottom edge
                        then jmax (Num 1) (jadd (jsub (Num (snd point)) (gridY enc)) (Num 1))
                        else newHeight0);
          oldBottom = jadd (gridY enc) (height enc);
          newY1 = (if e_top edge then jmin (Num (snd point)) (jsub oldBottom (Num 1)) else newY0);
          newHeight2 = (if e_top edge then jsub oldBottom newY1 else newHeight1);
          newX = jmax (Num 0) (jmin newX1 (Num (GRID_SIZE - 1)));
          newY = jmax (Num 0) (jmin newY1 (Num (GRID_SIZE - 1)));
          newWidth = jmax (Num 1) (jmin newWidth2 (jsub (Num GRID_SIZE) newX));
          newHeight = jmax (Num 1) (jmin newHeight2 (jsub (Num GRID_SIZE) newY))
      in \<lparr>g_gridX = newX, g_gridY = newY, g_width = newWidth, g_height = newHeight\<rparr>)"

definition isNearSVG :: "domRect \<Rightarrow> mouseEvent \<Rightarrow> bool" where
  "isNearSVG rect e =
     (clientX e \<ge> r_left rect - 50 \<and> clientX e \<le> r_right rect + 50 \<and>
      clientY e \<ge> r_top rect - 50 \<and> clientY e \<le> r_bottom rect + 50)"

definition handleGridMouseMove :: "domRect \<Rightarrow> mouseEvent \<Rightarrow> zoo \<Rightarrow> zoo" where
  "handleGridMouseMove rect e st =
     (case resizingEnclosure st of
        Some resize \<Rightarrow>
          (let point = getGridPoint rect e;
               r = r_enclosure resize;
               enc = heap st r;
               c = resizeCandidate (r_edge resize) enc point;
               hasOverlap = checkOverlap st (g_gridX c) (g_gridY c) (g_width c) (g_height c) (Some (eid enc))
           in if \<not> hasOverlap
              then st\<lparr>heap := (heap st)(r := enc\<lparr>gridX := g_gridX c, gridY := g_gridY c,
                                                  width := g_width c, height := g_height c\<rparr>)\<rparr>
              else st)
      | None \<Rightarrow>
          (case movingItem st of
             Some m \<Rightarrow>
               if \<not> isNearSVG rect e then st
               else
                 (let point = getGridPoint rect e;
                      item = heap st (mdata m);
                      newX0 = jsub (Num (fst point)) (offsetX m);
                      newY0 = jsub (Num (snd point)) (offsetY m);
                      newX = jmax (Num 0) (jmin newX0 (jsub (Num GRID_SIZE) (width item)));
                      newY = jmax (Num 0) (jmin newY0 (jsub (Num GRID_SIZE) (height item)))
                  in st\<lparr>heap := (heap st)(mdata m := item\<lparr>gridX := newX, gridY := newY\<rparr>)\<rparr>)
           | None \<Rightarrow>
               (case drawing st of
                  Some d \<Rightarrow>
                    (let point = getGridPoint rect e
                     in st\<lparr>drawing := Some (d\<lparr>currentX := fst point, currentY := snd point\<rparr>)\<rparr>)
                | None \<Rightarrow> st)))"

text \<open>
  The distance of the click test, \<open>100\<close> when no start position was recorded.
\<close>

definition distanceMoved :: "mouseEvent \<Rightarrow> zoo \<Rightarrow> real" where
  "distanceMoved e st =
     (case moveStartPos st of
        Some (sx, sy) \<Rightarrow> sqrt (real_of_int ((clientX e - sx)\<^sup>2 + (clientY e - sy)\<^sup>2))
      | None \<Rightarrow> 100)"

definition fitsInGrid :: "entity \<Rightarrow> bool" where
  "fitsInGrid item =
     (jge (gridX item) (Num 0) \<and> jge (gridY item) (Num 0) \<and>
      jle (jadd (gridX item) (width item)) (Num GRID_SIZE) \<and>
      jle (jadd (gridY item) (height item)) (Num GRID_SIZE))"

definition handleGridMouseUp :: "catalogs \<Rightarrow> mouseEvent \<Rightarrow> zoo \<Rightarrow> zoo" where
  "handleGridMouseUp cats e st =
     (case resizingEnclosure st of
        Some resize \<Rightarrow>
          (let st1 =
                 (if distanceMoved e st < 5
                  then
                    (let r = r_enclosure resize;
                         enc = heap st r;
                         orig = originalData resize;
                         restored = enc\<lparr>gridX := g_gridX orig, gridY := g_gridY orig,
                                        width := g_width orig, height := g_height orig\<rparr>
                     in showConfirmDialog (DeleteEnclosure (eid restored))
                          (st\<lparr>heap := (heap st)(r := restored)\<rparr>))
                  else st)
           in st1\<lparr>resizingEnclosure := None, moveStartPos := None\<rparr>)
      | None \<Rightarrow>
          (case movingItem st of
             Some m \<Rightarrow>
               if distanceMoved e st < 5
               then
                 (let restored = (heap st (mdata m))\<lparr>gridX := originalX m, gridY := originalY m\<rparr>;
                      st1 = st\<lparr>heap := (heap st)(mdata m := restored)\<rparr>;
                      st2 = (case mtype m of
                               TEnclosure \<Rightarrow> showConfirmDialog (DeleteEnclosure (mid m)) st1
                             | TDecoration \<Rightarrow> showConfirmDialog (DeleteDecoration (mid m)) st1
                             | TBuilding \<Rightarrow> showConfirmDialog (DeleteBuilding (mid m)) st1)
                  in st2\<lparr>movingItem := None, moveStartPos := None\<rparr>)
               else
                 (let item = heap st (mdata m);
                      hasOverlap = checkOverlap st (gridX item) (gridY item) (width item) (height item)
                                     (Some (mid m));
                      st1 = (if \<not> fitsInGrid item \<or> hasOverlap
                             then st\<lparr>heap := (heap st)(mdata m :=
                                        item\<lparr>gridX := originalX m, gridY := originalY m\<rparr>)\<rparr>
                             else st)
                  in st1\<lparr>movingItem := None, moveStartPos := None\<rparr>)
           | None \<Rightarrow>
               (case drawing st of
                  None \<Rightarrow> st
                | Some d \<Rightarrow>
                    (let gx = min (startX d) (currentX d);
                         gy = min (startY d) (currentY d);
                         w = \<bar>currentX d - startX d\<bar> + 1;
                         h = \<bar>currentY d - startY d\<bar> + 1;
                         hasOverlap = checkOverlap st (Num gx) (Num gy) (Num w) (Num h) None;
                         st1 = (if w > 0 \<and> h > 0 \<and> \<not> hasOverlap
                                then addEnclosure cats (Num gx) (Num gy) (Num w) (Num h) st
                                else st)
                     in st1\<lparr>drawing := None\<rparr>))))"

text \<open>\<open>String.prototype.includes\<close>\<close>

fun strIncludes :: "string \<Rightarrow> string \<Rightarrow> bool" where
  "strIncludes [] t = (t = [])"
| "strIncludes (c # cs) t = (take (length t) (c # cs) = t \<or> strIncludes cs t)"

text \<open>\<open>handleGridDrop\<close>, with the item id of the drop's data transfer (empty when it has
  none).\<close>

definition handleGridDrop :: "catalogs \<Rightarrow> domRect \<Rightarrow> string \<Rightarrow> mouseEvent \<Rightarrow> zoo \<Rightarrow> zoo" where
  "handleGridDrop cats rect itemId e st =
     (if itemId = [] then st
      else
        (let b = find (\<lambda>b. def_id b = itemId) (BUILDINGS cats);
             isDecoration = (b = None);
             found = (if isDecoration then find (\<lambda>d. def_id d = itemId) (DECORATIONS cats) else b)
         in case found of
              None \<Rightarrow> st
            | Some item \<Rightarrow>
                if \<not> isDecoration \<and> def_id item \<noteq> ''restroom'' \<and>
                   (\<exists>p \<in> set (buildingObjs st). strIncludes (eid p) (def_id item))
                then st\<lparr>draggingBuilding := None\<rparr>
                else
                  (let gx = Num ((clientX e - r_left rect) div CELL_SIZE);
                       gy = Num ((clientY e - r_top rect) div CELL_SIZE);
                       fits = (jle (jadd gx (def_width item)) (Num GRID_SIZE) \<and>
                               jle (jadd gy (def_height item)) (Num GRID_SIZE));
                       hasOverlap = checkOverlap st gx gy (def_width item) (def_height item) None;
                       st1 = (if fits \<and> \<not> hasOverlap
                              then (if isDecoration then addDecoration item gx gy st
                                    else addBuilding item gx gy st)
                              else st)
                   in st1\<lparr>draggingBuilding := None\<rparr>)))"

subsection \<open>Validation of an enclosure\<close>

text \<open>
  \<open>renderEnclosure\<close> marks the rectangle with the class \<open>enclosure-invalid\<close>, with
  \<open>enclosure-warning\<close>, or with neither.
\<close>

datatype status = StatusInvalid | StatusWarning | StatusOk

definition isValidPlacement :: "zoo \<Rightarrow> entity \<Rightarrow> bool" where
  "isValidPlacement st enclosure =
     (fitsInGrid enclosure \<and>
      \<not> checkOverlap st (gridX enclosure) (gridY enclosure) (width enclosure) (height enclosure)
           (Some (eid enclosure)))"

definition area :: "entity \<Rightarrow> jsnum" where
  "area enclosure = jmul (width enclosure) (height enclosure)"

definition perimeter :: "entity \<Rightarrow> jsnum" where
  "perimeter enclosure = jmul (Num 2) (jadd (width enclosure) (height enclosure))"

definition findAnimal :: "catalogs \<Rightarrow> entity \<Rightarrow> animalDef option" where
  "findAnimal cats enclosure = find (\<lambda>a. Some (animal_id a) = animal enclosure) (ANIMALS cats)"

definition meetsRequirements :: "catalogs \<Rightarrow> entity \<Rightarrow> bool" where
  "meetsRequirements cats enclosure =
     (case findAnimal cats enclosure of
        None \<Rightarrow> False
      | Some a \<Rightarrow> jge (area enclosure) (minArea a) \<and> jge (perimeter enclosure) (minPerimeter a))"

definition enclosureStatus :: "catalogs \<Rightarrow> zoo \<Rightarrow> entity \<Rightarrow> status" where
  "enclosureStatus cats st enclosure =
     (if \<not> isValidPlacement st enclosure then StatusInvalid
      else if \<not> meetsRequirements cats enclosure then StatusWarning
      else StatusOk)"

text \<open>The row of \<open>updateSummaryTable\<close> for one enclosure: no row when its animal is not in
  the catalog, otherwise the flags \<open>areaTooSmall\<close>, \<open>perimeterTooSmall\<close> and
  \<open>needsWarning\<close>.\<close>

definition summaryRow :: "catalogs \<Rightarrow> entity \<Rightarrow> (bool \<times> bool \<times> bool) option" where
  "summaryRow cats enclosure =
     (case findAnimal cats enclosure of
        None \<Rightarrow> None
      | Some a \<Rightarrow>
          (let areaTooSmall = jlt (area enclosure) (minArea a);
               perimeterTooSmall = jlt (perimeter enclosure) (minPerimeter a);
               needsWarning = (areaTooSmall \<or> perimeterTooSmall)
           in Some (areaTooSmall, perimeterTooSmall, needsWarning)))"

section \<open>Properties\<close>

subsection \<open>Definitions for the statements\<close>

text \<open>
  The overlap test in the words of the specification (section 4.1), on integer
  rectangles \<open>(x, y, w, h)\<close>.
\<close>

definition overlaps_spec :: "int \<times> int \<times> int \<times> int \<Rightarrow> int \<times> int \<times> int \<times> int \<Rightarrow> bool" where
  "overlaps_spec a b =
     (case a of (ax, ay, aw, ah) \<Rightarrow> case b of (bx, by, bw, bh) \<Rightarrow>
        ax < bx + bw \<and> bx < ax + aw \<and> ay < by + bh \<and> by < ay + ah)"

definition rectOf :: "entity \<Rightarrow> int \<times> int \<times> int \<times> int" where
  "rectOf b = (ival (gridX b), ival (gridY b), ival (width b), ival (height b))"

text \<open>An entity whose geometry holds integers, no \<open>NaN\<close>.\<close>

definition numeric :: "entity \<Rightarrow> bool" where
  "numeric b = (isNum (gridX b) \<and> isNum (gridY b) \<and> isNum (width b) \<and> isNum (height b))"

text \<open>Everything that is stored, in the order in which \<open>checkOverlap\<close> visits it.\<close>

definition stored :: "zoo \<Rightarrow> entity list" where
  "stored st = buildingObjs st @ decorationObjs st @ enclosureObjs st"

definition numericStore :: "zoo \<Rightarrow> bool" where
  "numericStore st = list_all numeric (stored st)"

text \<open>A value that one base-36 character holds: an integer from 0 to 35.\<close>

definition encodable36 :: "jsnum \<Rightarrow> bool" where
  "encodable36 v = (case v of Num i \<Rightarrow> 0 \<le> i \<and> i < 36 | NaN \<Rightarrow> False)"

definition noDot :: "string \<Rightarrow> bool" where
  "noDot s = (CHR ''.'' \<notin> set s)"

text \<open>
  What the round trip compares: per section, the list of tuples of the state, with the
  index that \<open>encodeZooState\<close> computes for each entity, and the list of tuples of the
  decoded structure.
\<close>

definition buildingTuples :: "catalogs \<Rightarrow> zoo \<Rightarrow> (jsnum \<times> jsnum \<times> jsnum) list" where
  "buildingTuples cats st =
     map (\<lambda>b. (typeIndexOf (BUILDINGS cats) b, gridX b, gridY b)) (buildingObjs st)"

definition decorationTuples :: "catalogs \<Rightarrow> zoo \<Rightarrow> (jsnum \<times> jsnum \<times> jsnum) list" where
  "decorationTuples cats st =
     map (\<lambda>d. (typeIndexOf (DECORATIONS cats) d, gridX d, gridY d)) (decorationObjs st)"

definition enclosureTuples :: "catalogs \<Rightarrow> zoo \<Rightarrow> (jsnum \<times> jsnum \<times> jsnum \<times> jsnum \<times> jsnum) list" where
  "enclosureTuples cats st =
     map (\<lambda>e. (animalIndexOf (ANIMALS cats) e, gridX e, gridY e, width e, height e)) (enclosureObjs st)"

definition itemRecTuples :: "itemRec list \<Rightarrow> (jsnum \<times> jsnum \<times> jsnum) list" where
  "itemRecTuples rs = map (\<lambda>r. (typeIndex r, item_x r, item_y r)) rs"

definition enclosureRecTuples :: "enclosureRec list \<Rightarrow> (jsnum \<times> jsnum \<times> jsnum \<times> jsnum \<times> jsnum) list" where
  "enclosureRecTuples rs = map (\<lambda>r. (animalIndex r, enc_x r, enc_y r, enc_w r, enc_h r)) rs"

definition encodableState :: "catalogs \<Rightarrow> zoo \<Rightarrow> bool" where
  "encodableState cats st =
     (list_all (\<lambda>(i, x, y). encodable36 i \<and> encodable36 x \<and> encodable36 y) (buildingTuples cats st) \<and>
      list_all (\<lambda>(i, x, y). encodable36 i \<and> encodable36 x \<and> encodable36 y) (decorationTuples cats st) \<and>
      list_all (\<lambda>(i, x, y, w, h). encodable36 i \<and> encodable36 x \<and> encodable36 y \<and>
                                 encodable36 w \<and> encodable36 h) (enclosureTuples cats st))"

definition roundTrips :: "catalogs \<Rightarrow> zoo \<Rightarrow> bool" where
  "roundTrips cats st =
     (case decodeZooState (encodeZooState cats st) of
        None \<Rightarrow> False
      | Some d \<Rightarrow>
          itemRecTuples (d_buildings d) = buildingTuples cats st \<and>
          itemRecTuples (d_decorations d) = decorationTuples cats st \<and>
          enclosureRecTuples (d_enclosures d) = enclosureTuples cats st)"

subsection \<open>Example catalogs and states\<close>

text \<open>
  The catalogs are not part of the sources; the examples use small ones of the same shape.
  The second one has a building whose id contains a hyphen (a catalog name such as
  \<open>Gift-Shop\<close>).
\<close>

definition exampleCats :: catalogs where
  "exampleCats =
     \<lparr>BUILDINGS = [\<lparr>def_id = ''giftshop'', def_width = Num 3, def_height = Num 2\<rparr>,
                   \<lparr>def_id = ''restroom'', def_width = Num 2, def_height = Num 2\<rparr>,
                   \<lparr>def_id = ''restaurant'', def_width = Num 3, def_height = Num 2\<rparr>],
      DECORATIONS = [\<lparr>def_id = ''tree'', def_width = Num 1, def_height = Num 1\<rparr>],
      ANIMALS = [\<lparr>animal_id = ''lion'', minPerimeter = Num 14, minArea = Num 12\<rparr>,
                 \<lparr>animal_id = ''zebra'', minPerimeter = Num 14, minArea = Num 20\<rparr>]\<rparr>"

definition gridRect :: domRect where
  "gridRect = \<lparr>r_left = 0, r_top = 0, r_right = 600, r_bottom = 600\<rparr>"

definition exampleZoo :: zoo where
  "exampleZoo =
     initialState
       \<lparr>heap := (\<lambda>_. noEntity)
           (0 := \<lparr>eid = ''restaurant-1'', gridX = Num 5, gridY = Num 5, width = Num 3, height = Num 2,
                  animal = None\<rparr>,
            1 := \<lparr>eid = ''tree-1'', gridX = Num 0, gridY = Num 10, width = Num 1, height = Num 1,
                  animal = None\<rparr>,
            2 := \<lparr>eid = ''enclosure-1'', gridX = Num 0, gridY = Num 0, width = Num 4, height = Num 3,
                  animal = Some ''lion''\<rparr>),
        nextRef := 3, placedBuildings := [0], placedDecorations := [1], enclosures := [2],
        nextEnclosureId := 2, nextBuildingId := 2, nextDecorationId := 2\<rparr>"

definition hyphenCats :: catalogs where
  "hyphenCats =
     \<lparr>BUILDINGS = [\<lparr>def_id = ''gift-shop'', def_width = Num 3, def_height = Num 2\<rparr>],
      DECORATIONS = [], ANIMALS = []\<rparr>"

text \<open>The building of \<open>hyphenCats\<close> dropped on the cell (5, 5) of the empty grid.\<close>

definition hyphenZoo :: zoo where
  "hyphenZoo = handleGridDrop hyphenCats gridRect ''gift-shop'' \<lparr>clientX = 110, clientY = 105\<rparr> initialState"

text \<open>A catalog whose entry 2 has a hyphen in its id, and that building dropped on the cell
  (5, 5) of the empty grid.\<close>

definition iceCreamCats :: catalogs where
  "iceCreamCats =
     \<lparr>BUILDINGS = [\<lparr>def_id = ''giftshop'', def_width = Num 3, def_height = Num 2\<rparr>,
                   \<lparr>def_id = ''restroom'', def_width = Num 2, def_height = Num 2\<rparr>,
                   \<lparr>def_id = ''ice-cream'', def_width = Num 2, def_height = Num 2\<rparr>],
      DECORATIONS = [], ANIMALS = []\<rparr>"

definition iceCreamZoo :: zoo where
  "iceCreamZoo =
     handleGridDrop iceCreamCats gridRect ''ice-cream'' \<lparr>clientX = 100, clientY = 100\<rparr> initialState"

text \<open>The building with catalog index 2 dropped on the cell (5, 5) of the empty grid.\<close>

definition restaurantZoo :: zoo where
  "restaurantZoo =
     handleGridDrop exampleCats gridRect ''restaurant'' \<lparr>clientX = 100, clientY = 100\<rparr> initialState"

subsection \<open>Definitions for the gestures\<close>

text \<open>The bounds test in the words of the specification (section 4.1), with \<open>N = GRID_SIZE\<close>.\<close>

definition inBounds_spec :: "int \<times> int \<times> int \<times> int \<Rightarrow> bool" where
  "inBounds_spec a = (case a of (ax, ay, aw, ah) \<Rightarrow>
      ax \<ge> 0 \<and> ay \<ge> 0 \<and> ax + aw \<le> GRID_SIZE \<and> ay + ah \<le> GRID_SIZE)"

text \<open>The array that holds the entities of a kind, and the closure that deletes one of them.\<close>

definition collectionOf :: "itemType \<Rightarrow> zoo \<Rightarrow> nat list" where
  "collectionOf ty st =
     (case ty of TEnclosure \<Rightarrow> enclosures st | TBuilding \<Rightarrow> placedBuildings st
      | TDecoration \<Rightarrow> placedDecorations st)"

definition deleteRequest :: "itemType \<Rightarrow> string \<Rightarrow> onConfirm" where
  "deleteRequest ty i =
     (case ty of TEnclosure \<Rightarrow> DeleteEnclosure i | TBuilding \<Rightarrow> DeleteBuilding i
      | TDecoration \<Rightarrow> DeleteDecoration i)"

text \<open>The gesture in progress, if any: the kind of entity and the reference it works on.
  \<open>handleGridMouseUp\<close> looks at \<open>resizingEnclosure\<close> first.\<close>

definition activeGesture :: "zoo \<Rightarrow> (itemType \<times> nat) option" where
  "activeGesture st =
     (case resizingEnclosure st of
        Some resize \<Rightarrow> Some (TEnclosure, r_enclosure resize)
      | None \<Rightarrow> (case movingItem st of Some m \<Rightarrow> Some (mtype m, mdata m) | None \<Rightarrow> None))"

text \<open>A sequence of pointer-move events, handled one after the other.\<close>

definition mouseMoves :: "domRect \<Rightarrow> mouseEvent list \<Rightarrow> zoo \<Rightarrow> zoo" where
  "mouseMoves rect evs st = foldl (\<lambda>s ev. handleGridMouseMove rect ev s) st evs"

text \<open>The Euclidean distance in pixels between the positions of two events.\<close>

definition pixelDistance :: "mouseEvent \<Rightarrow> mouseEvent \<Rightarrow> real" where
  "pixelDistance e0 e1 = sqrt (real_of_int ((clientX e1 - clientX e0)\<^sup>2 + (clientY e1 - clientY e0)\<^sup>2))"

text \<open>Between two states only the object \<open>r\<close> differs, and only in its geometry.\<close>

definition frame :: "nat \<Rightarrow> zoo \<Rightarrow> zoo \<Rightarrow> bool" where
  "frame r st st' =
     (st' = st\<lparr>heap := heap st'\<rparr> \<and> (\<forall>q. q \<noteq> r \<longrightarrow> heap st' q = heap st q) \<and>
      eid (heap st' r) = eid (heap st r) \<and> animal (heap st' r) = animal (heap st r))"

definition frameMove :: "nat \<Rightarrow> zoo \<Rightarrow> zoo \<Rightarrow> bool" where
  "frameMove r st st' =
     (frame r st st' \<and> width (heap st' r) = width (heap st r) \<and> height (heap st' r) = height (heap st r))"

text \<open>Pointer events of the example gestures, and the move that a press on the restaurant of
  \<open>exampleZoo\<close> starts.\<close>

definition pressRestaurant :: mouseEvent where
  "pressRestaurant = \<lparr>clientX = 110, clientY = 110\<rparr>"

definition overEnclosure :: mouseEvent where
  "overEnclosure = \<lparr>clientX = 30, clientY = 30\<rparr>"

definition overFreeCells :: mouseEvent where
  "overFreeCells = \<lparr>clientX = 310, clientY = 310\<rparr>"

definition nextToPress :: mouseEvent where
  "nextToPress = \<lparr>clientX = 112, clientY = 111\<rparr>"

definition restaurantMove :: moving where
  "restaurantMove = \<lparr>mtype = TBuilding, mid = ''restaurant-1'', mdata = 0, originalX = Num 5,
                      originalY = Num 5, offsetX = Num 0, offsetY = Num 0\<rparr>"

text \<open>A resize of the enclosure of \<open>exampleZoo\<close> by its lower right corner.\<close>

definition cornerSE :: edges where
  "cornerSE = \<lparr>e_left = False, e_right = True, e_top = False, e_bottom = True\<rparr>"

definition pressCorner :: mouseEvent where
  "pressCorner = \<lparr>clientX = 80, clientY = 60\<rparr>"

definition resizingZoo :: zoo where
  "resizingZoo = handleGridMouseDown gridRect (Some (2, cornerSE)) HitNothing pressCorner exampleZoo"

definition cornerResize :: resizing where
  "cornerResize = \<lparr>r_enclosure = 2, r_edge = cornerSE,
                    originalData = \<lparr>g_gridX = Num 0, g_gridY = Num 0, g_width = Num 4, g_height = Num 3\<rparr>\<rparr>"

definition nextToCorner :: mouseEvent where
  "nextToCorner = \<lparr>clientX = 81, clientY = 61\<rparr>"

definition widen :: mouseEvent where
  "widen = \<lparr>clientX = 110, clientY = 30\<rparr>"

subsection \<open>Definitions for validation and the invariants\<close>

text \<open>
  The validation of an enclosure in the words of the specification (section 4.4), for an
  enclosure and a requirement that hold integers.
\<close>

definition placementValid_spec :: "zoo \<Rightarrow> entity \<Rightarrow> bool" where
  "placementValid_spec st enc =
     (inBounds_spec (rectOf enc) \<and>
      \<not> (\<exists>b \<in> set (stored st). eid b \<noteq> eid enc \<and> overlaps_spec (rectOf enc) (rectOf b)))"

definition meetsRequirement_spec :: "animalDef \<Rightarrow> entity \<Rightarrow> bool" where
  "meetsRequirement_spec a enc =
     (ival (width enc) * ival (height enc) \<ge> ival (minArea a) \<and>
      2 * (ival (width enc) + ival (height enc)) \<ge> ival (minPerimeter a))"

definition status_spec :: "zoo \<Rightarrow> animalDef \<Rightarrow> entity \<Rightarrow> status" where
  "status_spec st a enc =
     (if \<not> placementValid_spec st enc then StatusInvalid
      else if \<not> meetsRequirement_spec a enc then StatusWarning
      else StatusOk)"

text \<open>The enclosure of \<open>exampleZoo\<close>, given to the zebra.\<close>

definition zebraPen :: entity where
  "zebraPen = \<lparr>eid = ''enclosure-1'', gridX = Num 0, gridY = Num 0, width = Num 4, height = Num 3,
               animal = Some ''zebra''\<rparr>"

text \<open>The invariants of the specification (section 8) on the three arrays.\<close>

fun pairwiseClear :: "entity list \<Rightarrow> bool" where
  "pairwiseClear [] = True"
| "pairwiseClear (b # bs) =
     (list_all (\<lambda>c. \<not> overlaps_spec (rectOf b) (rectOf c)) bs \<and> pairwiseClear bs)"

definition noOverlapInvariant :: "zoo \<Rightarrow> bool" where
  "noOverlapInvariant st = pairwiseClear (stored st)"

definition uniquenessInvariant :: "catalogs \<Rightarrow> zoo \<Rightarrow> bool" where
  "uniquenessInvariant cats st =
     (distinct (map animal (enclosureObjs st)) \<and>
      list_all (\<lambda>d. def_id d = ''restroom'' \<or>
                    length (filter (\<lambda>b. typeIdOf b = def_id d) (buildingObjs st)) \<le> 1)
               (BUILDINGS cats))"

subsection \<open>Definitions for the decoder\<close>

text \<open>
  The value of one character in base 36: its position in the alphabet \<open>0-9a-z\<close>, with
  the letters in either case, and \<open>NaN\<close> for any other character.
\<close>

definition upperDigits36 :: string where
  "upperDigits36 = ''ABCDEFGHIJKLMNOPQRSTUVWXYZ''"

fun indexOf :: "char \<Rightarrow> string \<Rightarrow> nat" where
  "indexOf c [] = 0"
| "indexOf c (a # as) = (if c = a then 0 else Suc (indexOf c as))"

definition base36Value :: "char \<Rightarrow> jsnum" where
  "base36Value c =
     (if c \<in> set digits36 then Num (int (indexOf c digits36))
      else if c \<in> set upperDigits36 then Num (int (indexOf c upperDigits36) + 10)
      else NaN)"

text \<open>The pieces of a string put together again, with a dot between two of them.\<close>

fun joinDots :: "string list \<Rightarrow> string" where
  "joinDots [] = []"
| "joinDots [p] = p"
| "joinDots (p # q # ps) = p @ ''.'' @ joinDots (q # ps)"

text \<open>The section \<open>k\<close> of an encoded string: piece \<open>k\<close>, empty when the string has fewer pieces.\<close>

definition sectionOf :: "string \<Rightarrow> nat \<Rightarrow> string" where
  "sectionOf s k = (splitDots s @ [[], [], []]) ! k"

text \<open>Record \<open>i\<close> of a section, read from the characters of its stride, and the records
  of all complete strides.\<close>

definition itemAt :: "string \<Rightarrow> nat \<Rightarrow> itemRec" where
  "itemAt sec i =
     \<lparr>typeIndex = base36Value (sec ! (3 * i)), item_x = base36Value (sec ! (3 * i + 1)),
      item_y = base36Value (sec ! (3 * i + 2))\<rparr>"

definition enclosureAt :: "string \<Rightarrow> nat \<Rightarrow> enclosureRec" where
  "enclosureAt sec i =
     \<lparr>animalIndex = base36Value (sec ! (5 * i)), enc_x = base36Value (sec ! (5 * i + 1)),
      enc_y = base36Value (sec ! (5 * i + 2)), enc_w = base36Value (sec ! (5 * i + 3)),
      enc_h = base36Value (sec ! (5 * i + 4))\<rparr>"

definition expectedItems :: "string \<Rightarrow> itemRec list" where
  "expectedItems sec = map (itemAt sec) [0..<length sec div 3]"

definition expectedEnclosures :: "string \<Rightarrow> enclosureRec list" where
  "expectedEnclosures sec = map (enclosureAt sec) [0..<length sec div 5]"

subsection \<open>A store with a number that is not one\<close>

text \<open>
  The overlap test of the specification (section 4.1) as JavaScript evaluates its four
  comparisons: each of them is false when one of its numbers is \<open>NaN\<close>.
\<close>

definition overlapsJS :: "entity \<Rightarrow> entity \<Rightarrow> bool" where
  "overlapsJS a b =
     (jlt (gridX a) (jadd (gridX b) (width b)) \<and> jlt (gridX b) (jadd (gridX a) (width a)) \<and>
      jlt (gridY a) (jadd (gridY b) (height b)) \<and> jlt (gridY b) (jadd (gridY a) (height a)))"

text \<open>
  The page opened with \<open>?z=0!0..0a043\<close>: the gift shop gets \<open>gridX = NaN\<close> from the
  character \<open>!\<close>, the lion gets a 4 by 3 enclosure at (10, 0). Then the enclosure is
  pressed on its cell (10, 0), dragged to the cell (20, 0) and released there.
\<close>

definition nanZoo :: zoo where
  "nanZoo = snd (loadFromURL exampleCats (Some ''0!0..0a043'') initialState)"

definition pressPen :: mouseEvent where
  "pressPen = \<lparr>clientX = 210, clientY = 10\<rparr>"

definition overFreeStrip :: mouseEvent where
  "overFreeStrip = \<lparr>clientX = 410, clientY = 10\<rparr>"

definition penMove :: moving where
  "penMove = \<lparr>mtype = TEnclosure, mid = ''enclosure-1'', mdata = 1, originalX = Num 10,
               originalY = Num 0, offsetX = Num 0, offsetY = Num 0\<rparr>"

definition nanPressed :: zoo where
  "nanPressed = handleGridMouseDown gridRect None (HitEnclosure ''enclosure-1'') pressPen nanZoo"

definition nanDragged :: zoo where
  "nanDragged = mouseMoves gridRect [overFreeStrip] nanPressed"

definition nanReleased :: zoo where
  "nanReleased = handleGridMouseUp exampleCats overFreeStrip nanDragged"

subsection \<open>The overlap query\<close>

lemma isNum_ival: "isNum v \<Longrightarrow> v = Num (ival v)"
  by (cases v) simp_all

lemma overlapLoop_iff:
  "list_all numeric bs \<Longrightarrow>
   overlapLoop (Num x) (Num y) (Num w) (Num h) ex bs \<longleftrightarrow>
     (\<exists>b \<in> set bs. Some (eid b) \<noteq> ex \<and> overlaps_spec (x, y, w, h) (rectOf b))"
proof (induction bs)
  case Nil
  then show ?case by simp
next
  case (Cons b bs)
  from Cons.prems have nb: "numeric b" and rest: "list_all numeric bs" by simp_all
  obtain bx "by" bw bh
    where g: "gridX b = Num bx" "gridY b = Num by" "width b = Num bw" "height b = Num bh"
    using nb unfolding numeric_def by (metis isNum_ival)
  have here: "\<not> (jle (jadd (Num x) (Num w)) (gridX b) \<or> jge (Num x) (jadd (gridX b) (width b)) \<or>
                  jle (jadd (Num y) (Num h)) (gridY b) \<or> jge (Num y) (jadd (gridY b) (height b)))
              \<longleftrightarrow> overlaps_spec (x, y, w, h) (rectOf b)"
    by (auto simp: g jge_def overlaps_spec_def rectOf_def)
  show ?case
    using Cons.IH [OF rest] here by auto
qed

lemma checkOverlap_iff:
  assumes "numericStore st"
  shows "checkOverlap st (Num x) (Num y) (Num w) (Num h) excludeId \<longleftrightarrow>
           (\<exists>b \<in> set (stored st). Some (eid b) \<noteq> excludeId \<and> overlaps_spec (x, y, w, h) (rectOf b))"
proof -
  from assms have n: "list_all numeric (buildingObjs st)" "list_all numeric (decorationObjs st)"
      "list_all numeric (enclosureObjs st)"
    by (simp_all add: numericStore_def stored_def)
  show ?thesis
    unfolding checkOverlap_def stored_def
    by (auto simp: overlapLoop_iff [OF n(1)] overlapLoop_iff [OF n(2)] overlapLoop_iff [OF n(3)])
qed

text \<open>
  Claim C7: on integer rectangles \<open>checkOverlap\<close> reports an overlap exactly when some stored
  entity of the three arrays, other than those with the excluded id, overlaps the given
  rectangle in the sense of the specification's formula; a stored rectangle that shares only
  an edge coordinate with the given one is not reported.
\<close>

theorem checkOverlap_spec:
  assumes "numericStore st"
  shows "(checkOverlap st (Num x) (Num y) (Num w) (Num h) excludeId \<longleftrightarrow>
            (\<exists>b \<in> set (stored st). Some (eid b) \<noteq> excludeId \<and> overlaps_spec (x, y, w, h) (rectOf b)))
         \<and> (\<forall>b. stored st = [b] \<and>
                 (ival (gridX b) = x + w \<or> ival (gridX b) + ival (width b) = x \<or>
                  ival (gridY b) = y + h \<or> ival (gridY b) + ival (height b) = y)
               \<longrightarrow> \<not> checkOverlap st (Num x) (Num y) (Num w) (Num h) excludeId)"
proof -
  note main = checkOverlap_iff [OF assms, of x y w h excludeId]
  have touch: "\<not> checkOverlap st (Num x) (Num y) (Num w) (Num h) excludeId"
    if "stored st = [b]" and "ival (gridX b) = x + w \<or> ival (gridX b) + ival (width b) = x \<or>
                  ival (gridY b) = y + h \<or> ival (gridY b) + ival (height b) = y" for b
    using that unfolding main by (auto simp: overlaps_spec_def rectOf_def)
  show ?thesis using main touch by blast
qed

theorem checkOverlap_spec_witness:
  "numericStore exampleZoo \<and>
   checkOverlap exampleZoo (Num 3) (Num 2) (Num 2) (Num 2) None \<and>
   (\<exists>b \<in> set (stored exampleZoo). Some (eid b) \<noteq> None \<and> overlaps_spec (3, 2, 2, 2) (rectOf b)) \<and>
   \<not> checkOverlap exampleZoo (Num 3) (Num 2) (Num 2) (Num 2) (Some ''enclosure-1'') \<and>
   numericStore restaurantZoo \<and>
   stored restaurantZoo = [\<lparr>eid = ''restaurant-1'', gridX = Num 5, gridY = Num 5, width = Num 3,
                             height = Num 2, animal = None\<rparr>] \<and>
   \<not> checkOverlap restaurantZoo (Num 8) (Num 5) (Num 2) (Num 2) None \<and>
   checkOverlap restaurantZoo (Num 7) (Num 5) (Num 2) (Num 2) None"
proof -
  have h1: "numericStore exampleZoo" by code_simp
  have h2: "numericStore restaurantZoo" by code_simp
  have s2: "stored restaurantZoo = [\<lparr>eid = ''restaurant-1'', gridX = Num 5, gridY = Num 5,
              width = Num 3, height = Num 2, animal = None\<rparr>]" by code_simp
  have c1: "checkOverlap exampleZoo (Num 3) (Num 2) (Num 2) (Num 2) None" by code_simp
  have c2: "\<not> checkOverlap exampleZoo (Num 3) (Num 2) (Num 2) (Num 2) (Some ''enclosure-1'')"
    by code_simp
  have c3: "checkOverlap restaurantZoo (Num 7) (Num 5) (Num 2) (Num 2) None" by code_simp
  from checkOverlap_spec [OF h1, of 3 2 2 2 None] c1
  have e1: "\<exists>b \<in> set (stored exampleZoo). Some (eid b) \<noteq> None \<and> overlaps_spec (3, 2, 2, 2) (rectOf b)"
    by blast
  from checkOverlap_spec [OF h2, of 8 5 2 2 None] s2
  have t: "\<not> checkOverlap restaurantZoo (Num 8) (Num 5) (Num 2) (Num 2) None"
    by (simp add: overlaps_spec_def rectOf_def)
  from h1 h2 s2 c1 c2 c3 e1 t show ?thesis by blast
qed

subsection \<open>The codec\<close>

lemma digits_table:
  "\<forall>n \<in> set [0..<36]. natToBase36 n = [digits36 ! n] \<and> fromBase36 [digits36 ! n] = Num (int n)
       \<and> digits36 ! n \<noteq> CHR ''.''"
  by code_simp

lemma digit36:
  assumes "n < 36"
  shows "natToBase36 n = [digits36 ! n]" and "fromBase36 [digits36 ! n] = Num (int n)"
    and "digits36 ! n \<noteq> CHR ''.''"
proof -
  from assms have "n \<in> set [0..<36]" by simp
  with digits_table show "natToBase36 n = [digits36 ! n]" and "fromBase36 [digits36 ! n] = Num (int n)"
    and "digits36 ! n \<noteq> CHR ''.''" by blast+
qed

lemma encodable36_toBase36:
  assumes "encodable36 v"
  obtains c where "toBase36 v = [c]" and "fromBase36 [c] = v" and "c \<noteq> CHR ''.''"
proof -
  from assms obtain i where v: "v = Num i" and r: "0 \<le> i" "i < 36"
    by (cases v) (simp_all add: encodable36_def)
  from r have n: "nat i < 36" by simp
  have "toBase36 v = [digits36 ! nat i]" using r by (simp add: v digit36(1) [OF n])
  moreover have "fromBase36 [digits36 ! nat i] = v" using r by (simp add: v digit36(2) [OF n])
  ultimately show ?thesis using that digit36(3) [OF n] by blast
qed

lemma splitDots_noDot: "noDot s \<Longrightarrow> splitDots s = [s]"
  by (induction s) (auto simp: noDot_def)

lemma splitDots_append_dot: "noDot s \<Longrightarrow> splitDots (s @ CHR ''.'' # r) = s # splitDots r"
  by (induction s) (auto simp: noDot_def)

lemma stripTrailingDots_snoc_dot: "stripTrailingDots (s @ ''.'') = stripTrailingDots s"
  by (simp add: stripTrailingDots_def)

lemma stripTrailingDots_keep: "s \<noteq> [] \<Longrightarrow> noDot s \<Longrightarrow> stripTrailingDots (p @ s) = p @ s"
proof -
  assume a: "s \<noteq> []" "noDot s"
  then obtain t c where s: "s = t @ [c]" by (metis rev_exhaust)
  with a have "c \<noteq> CHR ''.''" by (auto simp: noDot_def)
  then show ?thesis by (simp add: s stripTrailingDots_def)
qed

lemma stripTrailingDots_noDot: "noDot s \<Longrightarrow> stripTrailingDots s = s"
  using stripTrailingDots_keep [of s "[]"] by (cases "s = []") (simp_all add: stripTrailingDots_def)

lemma encoded_sections:
  assumes "noDot b" "noDot d" "noDot e"
  shows "let parts = splitDots (stripTrailingDots (b @ ''.'' @ d @ ''.'' @ e))
         in partOrEmpty parts 0 = b \<and> partOrEmpty parts 1 = d \<and> partOrEmpty parts 2 = e"
proof (cases "e = []")
  case False
  have "stripTrailingDots ((b @ ''.'' @ d @ ''.'') @ e) = (b @ ''.'' @ d @ ''.'') @ e"
    using False assms(3) by (rule stripTrailingDots_keep)
  then show ?thesis
    using assms by (simp add: splitDots_append_dot splitDots_noDot partOrEmpty_def)
next
  case e: True
  show ?thesis
  proof (cases "d = []")
    case False
    have "stripTrailingDots (((b @ ''.'') @ d) @ ''.'') = (b @ ''.'') @ d"
      unfolding stripTrailingDots_snoc_dot using False assms(2) by (rule stripTrailingDots_keep)
    then show ?thesis
      using assms e by (simp add: splitDots_append_dot splitDots_noDot partOrEmpty_def)
  next
    case d: True
    have "stripTrailingDots ((b @ ''.'') @ ''.'') = b"
      unfolding stripTrailingDots_snoc_dot using assms(1) by (rule stripTrailingDots_noDot)
    then show ?thesis
      using assms e d by (simp add: splitDots_noDot partOrEmpty_def)
  qed
qed

lemma items_section:
  assumes "list_all (\<lambda>b. encodable36 (f b) \<and> encodable36 (gridX b) \<and> encodable36 (gridY b)) bs"
  shows "noDot (concat (map (\<lambda>b. toBase36 (f b) @ toBase36 (gridX b) @ toBase36 (gridY b)) bs)) \<and>
         itemRecTuples (decodeItems (concat (map (\<lambda>b. toBase36 (f b) @ toBase36 (gridX b) @ toBase36 (gridY b)) bs)))
           = map (\<lambda>b. (f b, gridX b, gridY b)) bs"
  using assms
proof (induction bs)
  case Nil
  show ?case by (simp add: noDot_def itemRecTuples_def)
next
  case (Cons b bs)
  from Cons.prems have e: "encodable36 (f b)" "encodable36 (gridX b)" "encodable36 (gridY b)"
    and rest: "list_all (\<lambda>b. encodable36 (f b) \<and> encodable36 (gridX b) \<and> encodable36 (gridY b)) bs"
    by simp_all
  from e(1) obtain c1 where c1: "toBase36 (f b) = [c1]" "fromBase36 [c1] = f b" "c1 \<noteq> CHR ''.''"
    by (rule encodable36_toBase36)
  from e(2) obtain c2 where c2: "toBase36 (gridX b) = [c2]" "fromBase36 [c2] = gridX b" "c2 \<noteq> CHR ''.''"
    by (rule encodable36_toBase36)
  from e(3) obtain c3 where c3: "toBase36 (gridY b) = [c3]" "fromBase36 [c3] = gridY b" "c3 \<noteq> CHR ''.''"
    by (rule encodable36_toBase36)
  show ?case
    using Cons.IH [OF rest] c1 c2 c3 by (simp add: noDot_def itemRecTuples_def)
qed

lemma enclosures_section:
  assumes "list_all (\<lambda>b. encodable36 (f b) \<and> encodable36 (gridX b) \<and> encodable36 (gridY b) \<and>
                        encodable36 (width b) \<and> encodable36 (height b)) bs"
  shows "noDot (concat (map (\<lambda>b. toBase36 (f b) @ toBase36 (gridX b) @ toBase36 (gridY b) @
                                 toBase36 (width b) @ toBase36 (height b)) bs)) \<and>
         enclosureRecTuples (decodeEnclosures (concat (map (\<lambda>b. toBase36 (f b) @ toBase36 (gridX b) @
                                 toBase36 (gridY b) @ toBase36 (width b) @ toBase36 (height b)) bs)))
           = map (\<lambda>b. (f b, gridX b, gridY b, width b, height b)) bs"
  using assms
proof (induction bs)
  case Nil
  show ?case by (simp add: noDot_def enclosureRecTuples_def)
next
  case (Cons b bs)
  from Cons.prems have e: "encodable36 (f b)" "encodable36 (gridX b)" "encodable36 (gridY b)"
      "encodable36 (width b)" "encodable36 (height b)"
    and rest: "list_all (\<lambda>b. encodable36 (f b) \<and> encodable36 (gridX b) \<and> encodable36 (gridY b) \<and>
                        encodable36 (width b) \<and> encodable36 (height b)) bs"
    by simp_all
  from e(1) obtain c1 where c1: "toBase36 (f b) = [c1]" "fromBase36 [c1] = f b" "c1 \<noteq> CHR ''.''"
    by (rule encodable36_toBase36)
  from e(2) obtain c2 where c2: "toBase36 (gridX b) = [c2]" "fromBase36 [c2] = gridX b" "c2 \<noteq> CHR ''.''"
    by (rule encodable36_toBase36)
  from e(3) obtain c3 where c3: "toBase36 (gridY b) = [c3]" "fromBase36 [c3] = gridY b" "c3 \<noteq> CHR ''.''"
    by (rule encodable36_toBase36)
  from e(4) obtain c4 where c4: "toBase36 (width b) = [c4]" "fromBase36 [c4] = width b" "c4 \<noteq> CHR ''.''"
    by (rule encodable36_toBase36)
  from e(5) obtain c5 where c5: "toBase36 (height b) = [c5]" "fromBase36 [c5] = height b" "c5 \<noteq> CHR ''.''"
    by (rule encodable36_toBase36)
  show ?case
    using Cons.IH [OF rest] c1 c2 c3 c4 c5 by (simp add: noDot_def enclosureRecTuples_def)
qed

text \<open>
  Where the index that the encoder's lookup finds, the coordinates, and the width and height
  of an enclosure are integers from 0 to 35, decoding returns, per section, the records
  that were encoded, in the same order.
\<close>

lemma decode_encode_roundtrip:
  assumes "encodableState cats st"
  shows "roundTrips cats st \<and>
         (\<exists>d. decodeZooState (encodeZooState cats st) = Some d \<and>
              mset (itemRecTuples (d_buildings d)) = mset (buildingTuples cats st) \<and>
              mset (itemRecTuples (d_decorations d)) = mset (decorationTuples cats st) \<and>
              mset (enclosureRecTuples (d_enclosures d)) = mset (enclosureTuples cats st))"
proof -
  from assms have
    b: "list_all (\<lambda>b. encodable36 (typeIndexOf (BUILDINGS cats) b) \<and> encodable36 (gridX b) \<and>
                       encodable36 (gridY b)) (buildingObjs st)" and
    d: "list_all (\<lambda>b. encodable36 (typeIndexOf (DECORATIONS cats) b) \<and> encodable36 (gridX b) \<and>
                       encodable36 (gridY b)) (decorationObjs st)" and
    e: "list_all (\<lambda>b. encodable36 (animalIndexOf (ANIMALS cats) b) \<and> encodable36 (gridX b) \<and>
                       encodable36 (gridY b) \<and> encodable36 (width b) \<and> encodable36 (height b))
                 (enclosureObjs st)"
    by (simp_all add: encodableState_def buildingTuples_def decorationTuples_def enclosureTuples_def
        list_all_iff)
  note B = items_section [OF b, folded buildingStr_def buildingTuples_def]
  note D = items_section [OF d, folded decorationStr_def decorationTuples_def]
  note E = enclosures_section [OF e, folded enclosureStr_def enclosureTuples_def]
  have parts: "let parts = splitDots (encodeZooState cats st)
         in partOrEmpty parts 0 = buildingStr cats st \<and> partOrEmpty parts 1 = decorationStr cats st \<and>
            partOrEmpty parts 2 = enclosureStr cats st"
    unfolding encodeZooState_def using B D E by (intro encoded_sections) simp_all
  have rt: "roundTrips cats st"
    using parts B D E by (simp add: roundTrips_def decodeZooState_def Let_def)
  then show ?thesis
    by (auto simp: roundTrips_def split: option.splits)
qed

lemma decode_encode_roundtrip_example:
  "encodableState exampleCats exampleZoo \<and>
   encodeZooState exampleCats exampleZoo = ''255.00a.00043'' \<and>
   roundTrips exampleCats exampleZoo"
proof -
  have h: "encodableState exampleCats exampleZoo" by code_simp
  have e: "encodeZooState exampleCats exampleZoo = ''255.00a.00043''" by code_simp
  from decode_encode_roundtrip [OF h] h e show ?thesis by simp
qed

text \<open>
  Claim C1 fails on \<open>encodeZooState\<close>: it takes the type of a placed building from the
  text of its id before the first hyphen. For a catalog entry whose id has a hyphen
  (\<open>gift-shop\<close>, from the name \<open>Gift-Shop\<close>) that text is \<open>gift\<close>, \<open>findIndex\<close> finds
  nothing and the record is written as the four characters \<open>-155\<close>. The building is
  entry 0 of the catalog and stands at (5, 5), so every value is in 0..35; the decoder reads
  \<open>(NaN, 1, 5)\<close> and \<open>loadFromURL\<close> places nothing. A building whose catalog id has no
  hyphen makes the round trip.
\<close>

theorem encode_hyphen_id_breaks_roundtrip:
  "BUILDINGS hyphenCats ! 0 = \<lparr>def_id = ''gift-shop'', def_width = Num 3, def_height = Num 2\<rparr> \<and>
   stored hyphenZoo = [\<lparr>eid = ''gift-shop-1'', gridX = Num 5, gridY = Num 5, width = Num 3,
                         height = Num 2, animal = None\<rparr>] \<and>
   buildingObjs hyphenZoo = stored hyphenZoo \<and>
   map typeIdOf (buildingObjs hyphenZoo) = [''gift''] \<and>
   map (typeIndexOf (BUILDINGS hyphenCats)) (buildingObjs hyphenZoo) = [Num (- 1)] \<and>
   encodeZooState hyphenCats hyphenZoo = ''-155'' \<and>
   decodeZooState ''-155'' =
     Some \<lparr>d_buildings = [\<lparr>typeIndex = NaN, item_x = Num 1, item_y = Num 5\<rparr>],
           d_decorations = [], d_enclosures = []\<rparr> \<and>
   stored (snd (loadFromURL hyphenCats (Some ''-155'') initialState)) = [] \<and>
   encodeZooState exampleCats restaurantZoo = ''255'' \<and>
   decodeZooState ''255'' =
     Some \<lparr>d_buildings = [\<lparr>typeIndex = Num 2, item_x = Num 5, item_y = Num 5\<rparr>],
           d_decorations = [], d_enclosures = []\<rparr> \<and>
   stored (snd (loadFromURL exampleCats (Some ''255'') initialState)) = stored restaurantZoo"
  by code_simp

lemma stripTrailingDots_dot_prefix:
  "stripTrailingDots (CHR ''.'' # r) = [] \<or> (\<exists>t. stripTrailingDots (CHR ''.'' # r) = CHR ''.'' # t)"
proof (cases "\<forall>c \<in> set (rev r). c = CHR ''.''")
  case True
  then show ?thesis by (simp add: stripTrailingDots_def)
next
  case False
  then have "dropWhile (\<lambda>c. c = CHR ''.'') (rev r @ ''.'') = dropWhile (\<lambda>c. c = CHR ''.'') (rev r) @ ''.''"
    by (auto simp: dropWhile_append)
  then show ?thesis by (simp add: stripTrailingDots_def)
qed

lemma stripTrailingDots_append:
  "stripTrailingDots (p @ s) = (if stripTrailingDots s = [] then stripTrailingDots p else p @ stripTrailingDots s)"
  by (auto simp: stripTrailingDots_def dropWhile_append dropWhile_eq_Nil_conv)

lemma first_section:
  assumes "noDot b"
  shows "partOrEmpty (splitDots (stripTrailingDots (b @ CHR ''.'' # r))) 0 = b"
proof -
  consider "stripTrailingDots (CHR ''.'' # r) = []" | t where "stripTrailingDots (CHR ''.'' # r) = CHR ''.'' # t"
    using stripTrailingDots_dot_prefix by blast
  then show ?thesis
  proof cases
    case 1
    then have "stripTrailingDots (b @ CHR ''.'' # r) = b"
      using assms by (simp add: stripTrailingDots_append stripTrailingDots_noDot)
    then show ?thesis using assms by (simp add: splitDots_noDot partOrEmpty_def)
  next
    case 2
    then have "stripTrailingDots (b @ CHR ''.'' # r) = b @ CHR ''.'' # t"
      by (simp add: stripTrailingDots_append)
    then show ?thesis using assms by (simp add: splitDots_append_dot partOrEmpty_def)
  qed
qed

lemma findIndex_distinct:
  "distinct (map f xs) \<Longrightarrow> k < length xs \<Longrightarrow> findIndex (\<lambda>d. f d = f (xs ! k)) xs = int k"
proof (induction xs arbitrary: k)
  case Nil
  then show ?case by simp
next
  case (Cons a as)
  show ?case
  proof (cases k)
    case 0
    then show ?thesis by simp
  next
    case (Suc j)
    with Cons.prems have j: "j < length as" and d: "distinct (map f as)" and na: "f a \<notin> f ` set as"
      by simp_all
    from j na have "f a \<noteq> f (as ! j)" by (metis imageI nth_mem)
    moreover have "findIndex (\<lambda>d. f d = f (as ! j)) as = int j" using d j by (rule Cons.IH)
    ultimately show ?thesis by (simp add: Suc Let_def)
  qed
qed

lemma typeIdOf_instance:
  assumes "CHR ''-'' \<notin> set d" and "eid b = d @ ''-'' @ r"
  shows "typeIdOf b = d"
proof -
  have "takeWhile (\<lambda>c. c \<noteq> CHR ''-'') (d @ CHR ''-'' # r) = d"
    using assms(1) by (subst takeWhile_append2) auto
  then show ?thesis by (simp add: typeIdOf_def assms(2))
qed

lemma typeIndexOf_instance:
  assumes "k < length cat" and "distinct (map def_id cat)"
    and "CHR ''-'' \<notin> set (def_id (cat ! k))"
    and "eid b = def_id (cat ! k) @ ''-'' @ r"
  shows "typeIndexOf cat b = Num (int k)"
  unfolding typeIndexOf_def typeIdOf_instance [OF assms(3,4)]
  using findIndex_distinct [OF assms(2,1)] by simp

lemma buildingStr_255:
  assumes "buildingObjs st = [b]" and "typeIndexOf (BUILDINGS cats) b = Num 2"
    and "gridX b = Num 5" and "gridY b = Num 5"
  shows "buildingStr cats st = ''255'' \<and>
         partOrEmpty (splitDots (encodeZooState cats st)) 0 = ''255'' \<and>
         (decorationObjs st = [] \<and> enclosureObjs st = [] \<longrightarrow> encodeZooState cats st = ''255'')"
proof -
  have d: "natToBase36 2 = ''2''" "natToBase36 5 = ''5''" by code_simp+
  have b: "buildingStr cats st = ''255''"
    using assms d by (simp add: buildingStr_def)
  have n: "noDot ''255''" by (simp add: noDot_def)
  have first: "partOrEmpty (splitDots (encodeZooState cats st)) 0 = ''255''"
    unfolding encodeZooState_def b using first_section [OF n] by simp
  have whole: "encodeZooState cats st = ''255''" if "decorationObjs st = []" "enclosureObjs st = []"
    using that b by (simp add: encodeZooState_def decorationStr_def enclosureStr_def stripTrailingDots_def)
  from b first whole show ?thesis by blast
qed

text \<open>
  Claim C9, amended: take a catalog of buildings with unique ids in which the id of entry 2
  has no hyphen, and a state whose only placed building is an instance of entry 2 (its id
  is the entry's id, a hyphen and a counter, as \<open>addBuilding\<close> makes it) at the grid
  position (5, 5). Encoding it gives the buildings section \<open>255\<close> (one base-36 character
  each for 2, 5 and 5): it is the value of \<open>buildingStr\<close>, the first section of the encoded
  string, and the whole encoded string when nothing else is placed.
\<close>

theorem encode_single_building:
  assumes "buildingObjs st = [b]"
    and "2 < length (BUILDINGS cats)" and "distinct (map def_id (BUILDINGS cats))"
    and "CHR ''-'' \<notin> set (def_id (BUILDINGS cats ! 2))"
    and "eid b = def_id (BUILDINGS cats ! 2) @ ''-'' @ natToDecimal n"
    and "gridX b = Num 5" and "gridY b = Num 5"
  shows "buildingStr cats st = ''255'' \<and>
         partOrEmpty (splitDots (encodeZooState cats st)) 0 = ''255'' \<and>
         (decorationObjs st = [] \<and> enclosureObjs st = [] \<longrightarrow> encodeZooState cats st = ''255'')"
proof -
  have "typeIndexOf (BUILDINGS cats) b = Num 2"
    using typeIndexOf_instance [OF assms(2,3,4,5)] by simp
  with assms(1) show ?thesis using assms(6,7) by (rule buildingStr_255)
qed

theorem encode_single_building_witness:
  "buildingObjs restaurantZoo = [\<lparr>eid = ''restaurant-1'', gridX = Num 5, gridY = Num 5, width = Num 3,
                             height = Num 2, animal = None\<rparr>] \<and>
   2 < length (BUILDINGS exampleCats) \<and> distinct (map def_id (BUILDINGS exampleCats)) \<and>
   def_id (BUILDINGS exampleCats ! 2) = ''restaurant'' \<and>
   CHR ''-'' \<notin> set (def_id (BUILDINGS exampleCats ! 2)) \<and>
   ''restaurant-1'' = def_id (BUILDINGS exampleCats ! 2) @ ''-'' @ natToDecimal 1 \<and>
   decorationObjs restaurantZoo = [] \<and> enclosureObjs restaurantZoo = [] \<and>
   buildingStr exampleCats restaurantZoo = ''255'' \<and>
   partOrEmpty (splitDots (encodeZooState exampleCats restaurantZoo)) 0 = ''255'' \<and>
   encodeZooState exampleCats restaurantZoo = ''255''"
proof -
  let ?b = "\<lparr>eid = ''restaurant-1'', gridX = Num 5, gridY = Num 5, width = Num 3,
                             height = Num 2, animal = None\<rparr>"
  have h1: "buildingObjs restaurantZoo = [?b]" by code_simp
  have h2: "2 < length (BUILDINGS exampleCats)" "distinct (map def_id (BUILDINGS exampleCats))"
    "CHR ''-'' \<notin> set (def_id (BUILDINGS exampleCats ! 2))" by code_simp+
  have h3: "def_id (BUILDINGS exampleCats ! 2) = ''restaurant''" by code_simp
  have h4: "''restaurant-1'' = def_id (BUILDINGS exampleCats ! 2) @ ''-'' @ natToDecimal 1" by code_simp
  have h5: "eid ?b = def_id (BUILDINGS exampleCats ! 2) @ ''-'' @ natToDecimal 1"
    using h4 by simp
  have e: "decorationObjs restaurantZoo = []" "enclosureObjs restaurantZoo = []" by code_simp+
  have g: "gridX ?b = Num 5" "gridY ?b = Num 5" by simp_all
  from encode_single_building [OF h1 h2 h5 g] h1 h2 h3 h4 e show ?thesis by blast
qed

text \<open>
  The buildings section of that state is not \<open>253\<close>. Nor is it for the only building of
  a catalog whose entry 2 has a hyphen in its id: there the encoder finds no entry for the
  text before the hyphen and writes \<open>-155\<close>.
\<close>

theorem encode_253_counterexample:
  "buildingObjs restaurantZoo = [\<lparr>eid = ''restaurant-1'', gridX = Num 5, gridY = Num 5, width = Num 3,
                             height = Num 2, animal = None\<rparr>] \<and>
   typeIndexOf (BUILDINGS exampleCats) \<lparr>eid = ''restaurant-1'', gridX = Num 5, gridY = Num 5, width = Num 3,
                             height = Num 2, animal = None\<rparr> = Num 2 \<and>
   buildingStr exampleCats restaurantZoo \<noteq> ''253'' \<and>
   partOrEmpty (splitDots (encodeZooState exampleCats restaurantZoo)) 0 \<noteq> ''253'' \<and>
   encodeZooState exampleCats restaurantZoo = ''255'' \<and>
   def_id (BUILDINGS iceCreamCats ! 2) = ''ice-cream'' \<and>
   stored iceCreamZoo = [\<lparr>eid = ''ice-cream-1'', gridX = Num 5, gridY = Num 5, width = Num 2,
                           height = Num 2, animal = None\<rparr>] \<and>
   buildingObjs iceCreamZoo = stored iceCreamZoo \<and>
   buildingStr iceCreamCats iceCreamZoo = ''-155'' \<and>
   encodeZooState iceCreamCats iceCreamZoo = ''-155''"
  by code_simp

lemma fromBase36_single: "fromBase36 [c] = (case digitVal c of Some v \<Rightarrow> Num v | None \<Rightarrow> NaN)"
proof (cases "digitVal c")
  case None
  then show ?thesis
    by (auto simp: fromBase36_def isDigit36_def Let_def split: list.splits)
next
  case (Some v)
  then have "\<not> isWhite c" "c \<noteq> CHR ''-''" "c \<noteq> CHR ''+''"
    by (auto simp: isWhite_def digitVal_def Let_def split: if_splits)
  with Some show ?thesis
    by (simp add: fromBase36_def isDigit36_def Let_def)
qed

lemma fromBase36_NaN: "\<not> isDigit36 c \<Longrightarrow> fromBase36 [c] = NaN"
  by (simp add: fromBase36_single isDigit36_def)

lemma fromBase36_all: "\<forall>c::char. fromBase36 [c] = base36Value c"
  by code_simp

lemma fromBase36_char: "fromBase36 [c] = base36Value c"
  using fromBase36_all by blast

lemma splitDots_nonempty: "splitDots s \<noteq> []"
  by (induction s) (auto split: list.splits)

lemma splitDots_noDots: "list_all noDot (splitDots s)"
  by (induction s) (auto simp: noDot_def split: list.splits)

lemma joinDots_splitDots: "joinDots (splitDots s) = s"
proof (induction s)
  case Nil
  show ?case by simp
next
  case (Cons c cs)
  obtain p ps where ps: "splitDots cs = p # ps"
    using splitDots_nonempty [of cs] by (cases "splitDots cs") auto
  show ?case
  proof (cases "c = CHR ''.''")
    case True
    then show ?thesis using Cons.IH by (simp add: ps)
  next
    case False
    then show ?thesis using Cons.IH by (cases ps) (simp_all add: ps)
  qed
qed

lemma decodeItems_expected: "decodeItems s = expectedItems s"
proof (induction s rule: decodeItems.induct)
  case (1 a b c rest)
  have len: "length (a # b # c # rest) div 3 = Suc (length rest div 3)" by simp
  have shift: "itemAt (a # b # c # rest) (Suc i) = itemAt rest i" for i
    by (simp add: itemAt_def)
  have "expectedItems (a # b # c # rest) =
          itemAt (a # b # c # rest) 0 # map (itemAt (a # b # c # rest) \<circ> Suc) [0..<length rest div 3]"
    unfolding expectedItems_def len by (simp add: upt_conv_Cons map_Suc_upt [symmetric] del: upt_Suc)
  also have "map (itemAt (a # b # c # rest) \<circ> Suc) [0..<length rest div 3] = expectedItems rest"
    by (simp add: expectedItems_def shift)
  finally show ?case
    using 1 by (simp add: itemAt_def fromBase36_char)
qed (simp_all add: expectedItems_def)

lemma decodeEnclosures_expected: "decodeEnclosures s = expectedEnclosures s"
proof (induction s rule: decodeEnclosures.induct)
  case (1 a b c d e rest)
  have len: "length (a # b # c # d # e # rest) div 5 = Suc (length rest div 5)" by simp
  have shift: "enclosureAt (a # b # c # d # e # rest) (Suc i) = enclosureAt rest i" for i
    by (simp add: enclosureAt_def add.commute)
  have "expectedEnclosures (a # b # c # d # e # rest) =
          enclosureAt (a # b # c # d # e # rest) 0 #
          map (enclosureAt (a # b # c # d # e # rest) \<circ> Suc) [0..<length rest div 5]"
    unfolding expectedEnclosures_def len by (simp add: upt_conv_Cons map_Suc_upt [symmetric] del: upt_Suc)
  also have "map (enclosureAt (a # b # c # d # e # rest) \<circ> Suc) [0..<length rest div 5] = expectedEnclosures rest"
    by (simp add: expectedEnclosures_def shift)
  finally show ?case
    using 1 by (simp add: enclosureAt_def fromBase36_char)
qed (simp_all add: expectedEnclosures_def)

lemma partOrEmpty_sectionOf: "k < 3 \<Longrightarrow> partOrEmpty (splitDots s) k = sectionOf s k"
  by (auto simp: partOrEmpty_def sectionOf_def nth_append numeral_3_eq_3 less_Suc_eq nth_Cons'
      split: nat.splits)

text \<open>
  Claim C10: \<open>decodeZooState\<close> returns a structure for every string, never the \<open>null\<close> of
  its \<open>catch\<close> branch, so \<open>loadFromURL\<close> goes on to load whatever a non-empty parameter
  decodes to. The structure is determined by the string: the sections are the first three
  of the dot-free pieces that the string consists of (a missing one is empty), and every
  complete stride of 3 (buildings, decorations) or 5 (enclosures) characters of a section
  gives one record, whose fields are the base-36 values of the characters of the stride. A
  character outside the base-36 alphabet is no parse failure: the field read from it is
  \<open>NaN\<close>.
\<close>

theorem decodeZooState_total:
  "splitDots s \<noteq> [] \<and> list_all noDot (splitDots s) \<and> joinDots (splitDots s) = s \<and>
   decodeZooState s =
     Some \<lparr>d_buildings = expectedItems (sectionOf s 0),
           d_decorations = expectedItems (sectionOf s 1),
           d_enclosures = expectedEnclosures (sectionOf s 2)\<rparr> \<and>
   (z \<noteq> [] \<longrightarrow> fst (loadFromURL cats (Some z) st)) \<and>
   (c \<notin> set digits36 \<and> c \<notin> set upperDigits36 \<longrightarrow> fromBase36 [c] = NaN)"
proof -
  have dec: "decodeZooState s =
     Some \<lparr>d_buildings = expectedItems (sectionOf s 0),
           d_decorations = expectedItems (sectionOf s 1),
           d_enclosures = expectedEnclosures (sectionOf s 2)\<rparr>" for s
    by (simp add: decodeZooState_def Let_def partOrEmpty_sectionOf decodeItems_expected
        decodeEnclosures_expected)
  have load: "fst (loadFromURL cats (Some z) st)" if "z \<noteq> []"
    using that by (simp add: loadFromURL_def Let_def dec)
  have nan: "fromBase36 [c] = NaN" if "c \<notin> set digits36 \<and> c \<notin> set upperDigits36"
    using that by (simp add: fromBase36_char base36Value_def)
  from splitDots_nonempty [of s] splitDots_noDots [of s] joinDots_splitDots [of s] dec [of s] load nan
  show ?thesis by blast
qed

theorem decodeZooState_total_witness:
  "splitDots ''0!0..0a04?z'' = [''0!0'', [], ''0a04?z''] \<and>
   joinDots [''0!0'', [], ''0a04?z''] = ''0!0..0a04?z'' \<and>
   decodeZooState ''0!0..0a04?z'' =
     Some \<lparr>d_buildings = [\<lparr>typeIndex = Num 0, item_x = NaN, item_y = Num 0\<rparr>],
           d_decorations = [],
           d_enclosures = [\<lparr>animalIndex = Num 0, enc_x = Num 10, enc_y = Num 0, enc_w = Num 4,
                            enc_h = NaN\<rparr>]\<rparr> \<and>
   ''0!0..0a04?z'' \<noteq> [] \<and>
   fst (loadFromURL exampleCats (Some ''0!0..0a04?z'') initialState) \<and>
   stored (snd (loadFromURL exampleCats (Some ''0!0..0a04?z'') initialState)) =
     [\<lparr>eid = ''giftshop-1'', gridX = NaN, gridY = Num 0, width = Num 3, height = Num 2,
       animal = None\<rparr>,
      \<lparr>eid = ''enclosure-1'', gridX = Num 10, gridY = Num 0, width = Num 4, height = NaN,
       animal = Some ''lion''\<rparr>] \<and>
   CHR ''!'' \<notin> set digits36 \<and> CHR ''!'' \<notin> set upperDigits36 \<and> fromBase36 ''!'' = NaN"
proof -
  let ?z = "''0!0..0a04?z''"
  have sp: "splitDots ?z = [''0!0'', [], ''0a04?z'']" by code_simp
  have j: "joinDots [''0!0'', [], ''0a04?z''] = ?z" by code_simp
  have e: "expectedItems (sectionOf ?z 0) = [\<lparr>typeIndex = Num 0, item_x = NaN, item_y = Num 0\<rparr>]"
    "expectedItems (sectionOf ?z 1) = []"
    "expectedEnclosures (sectionOf ?z 2) =
       [\<lparr>animalIndex = Num 0, enc_x = Num 10, enc_y = Num 0, enc_w = Num 4, enc_h = NaN\<rparr>]"
    by code_simp+
  have h: "?z \<noteq> []" "CHR ''!'' \<notin> set digits36" "CHR ''!'' \<notin> set upperDigits36" by code_simp+
  have s: "stored (snd (loadFromURL exampleCats (Some ?z) initialState)) =
     [\<lparr>eid = ''giftshop-1'', gridX = NaN, gridY = Num 0, width = Num 3, height = Num 2,
       animal = None\<rparr>,
      \<lparr>eid = ''enclosure-1'', gridX = Num 10, gridY = Num 0, width = Num 4, height = NaN,
       animal = Some ''lion''\<rparr>]" by code_simp
  note T = decodeZooState_total [of ?z ?z exampleCats initialState "CHR ''!''", unfolded e]
  from T sp j h s show ?thesis by blast
qed

subsection \<open>Gestures\<close>

lemma frame_refl: "frame r st st"
  by (simp add: frame_def)

lemma frame_trans: "frame r a b \<Longrightarrow> frame r b c \<Longrightarrow> frame r a c"
  unfolding frame_def
  by (metis (no_types, lifting) zoo.surjective zoo.update_convs(1))

lemma frameMove_refl: "frameMove r st st"
  by (simp add: frameMove_def frame_refl)

lemma frameMove_trans: "frameMove r a b \<Longrightarrow> frameMove r b c \<Longrightarrow> frameMove r a c"
  unfolding frameMove_def using frame_trans by metis

lemma frame_fields:
  assumes "frame r st st'"
  shows "placedBuildings st' = placedBuildings st" "placedDecorations st' = placedDecorations st"
    "enclosures st' = enclosures st" "dialogs st' = dialogs st" "movingItem st' = movingItem st"
    "resizingEnclosure st' = resizingEnclosure st" "moveStartPos st' = moveStartPos st"
    "eid (heap st' q) = eid (heap st q)"
proof -
  from assms have e: "st' = st\<lparr>heap := heap st'\<rparr>" by (simp add: frame_def)
  show "placedBuildings st' = placedBuildings st" by (subst e) simp
  show "placedDecorations st' = placedDecorations st" by (subst e) simp
  show "enclosures st' = enclosures st" by (subst e) simp
  show "dialogs st' = dialogs st" by (subst e) simp
  show "movingItem st' = movingItem st" by (subst e) simp
  show "resizingEnclosure st' = resizingEnclosure st" by (subst e) simp
  show "moveStartPos st' = moveStartPos st" by (subst e) simp
  show "eid (heap st' q) = eid (heap st q)" using assms by (cases "q = r") (simp_all add: frame_def)
qed

lemma mouseMove_moving:
  assumes "resizingEnclosure st = None" "movingItem st = Some m"
  shows "frameMove (mdata m) st (handleGridMouseMove rect ev st)"
  using assms by (simp add: handleGridMouseMove_def frameMove_def frame_def Let_def)

lemma mouseMove_resizing:
  assumes "resizingEnclosure st = Some rz"
  shows "frame (r_enclosure rz) st (handleGridMouseMove rect ev st)"
  using assms by (simp add: handleGridMouseMove_def frame_def Let_def)

lemma mouseMoves_moving:
  assumes "resizingEnclosure st = None" "movingItem st = Some m"
  shows "frameMove (mdata m) st (mouseMoves rect evs st)"
  using assms
proof (induction evs arbitrary: st)
  case Nil
  show ?case by (simp add: mouseMoves_def frameMove_refl)
next
  case (Cons ev evs)
  let ?s = "handleGridMouseMove rect ev st"
  have f: "frameMove (mdata m) st ?s" using Cons.prems by (rule mouseMove_moving)
  then have "frame (mdata m) st ?s" by (simp add: frameMove_def)
  then have "resizingEnclosure ?s = None" "movingItem ?s = Some m"
    using Cons.prems frame_fields(5,6) by metis+
  then have "frameMove (mdata m) ?s (mouseMoves rect evs ?s)" by (rule Cons.IH)
  with f have "frameMove (mdata m) st (mouseMoves rect evs ?s)" by (rule frameMove_trans)
  then show ?case by (simp add: mouseMoves_def)
qed

lemma mouseMoves_resizing:
  assumes "resizingEnclosure st = Some rz"
  shows "frame (r_enclosure rz) st (mouseMoves rect evs st)"
  using assms
proof (induction evs arbitrary: st)
  case Nil
  show ?case by (simp add: mouseMoves_def frame_refl)
next
  case (Cons ev evs)
  let ?s = "handleGridMouseMove rect ev st"
  have f: "frame (r_enclosure rz) st ?s" using Cons.prems by (rule mouseMove_resizing)
  then have "resizingEnclosure ?s = Some rz"
    using Cons.prems frame_fields(6) by metis
  then have "frame (r_enclosure rz) ?s (mouseMoves rect evs ?s)" by (rule Cons.IH)
  with f have "frame (r_enclosure rz) st (mouseMoves rect evs ?s)" by (rule frame_trans)
  then show ?case by (simp add: mouseMoves_def)
qed


lemma distance_of_start:
  "moveStartPos st = Some (clientX e0, clientY e0) \<Longrightarrow> distanceMoved e1 st = pixelDistance e0 e1"
  by (simp add: distanceMoved_def pixelDistance_def)

lemma find_SomeD: "find P xs = Some x \<Longrightarrow> P x \<and> x \<in> set xs"
  by (induction xs) (auto split: if_splits)

lemma mouseDown_moving:
  assumes "movingItem st0 = None" and "movingItem (handleGridMouseDown rect ed tg e0 st0) = Some m"
  shows "handleGridMouseDown rect ed tg e0 st0 =
           st0\<lparr>movingItem := Some m, moveStartPos := Some (clientX e0, clientY e0)\<rparr>"
    and "originalX m = gridX (heap st0 (mdata m))" and "originalY m = gridY (heap st0 (mdata m))"
    and "mid m = eid (heap st0 (mdata m))"
    and "offsetX m = jsub (Num (fst (getGridPoint rect e0))) (gridX (heap st0 (mdata m)))"
    and "offsetY m = jsub (Num (snd (getGridPoint rect e0))) (gridY (heap st0 (mdata m)))"
    and "mdata m \<in> set (collectionOf (mtype m) st0)"
  using assms
  by (auto simp: handleGridMouseDown_def startMoving_def Let_def collectionOf_def
      split: option.splits hit.splits if_splits prod.splits dest: find_SomeD)

lemma mouseDown_resizing:
  assumes "resizingEnclosure st0 = None" and "resizingEnclosure (handleGridMouseDown rect ed tg e0 st0) = Some rz"
  shows "handleGridMouseDown rect ed tg e0 st0 =
           st0\<lparr>resizingEnclosure := Some rz, moveStartPos := Some (clientX e0, clientY e0)\<rparr>"
    and "originalData rz = geometryOf (heap st0 (r_enclosure rz))"
  using assms
  by (auto simp: handleGridMouseDown_def startMoving_def Let_def
      split: option.splits hit.splits if_splits prod.splits)

lemma mouseDown_no_resizing:
  assumes "resizingEnclosure st0 = None" and "movingItem (handleGridMouseDown rect ed tg e0 st0) = Some m"
    and "movingItem st0 = None"
  shows "resizingEnclosure (handleGridMouseDown rect ed tg e0 st0) = None"
  using assms
  by (auto simp: handleGridMouseDown_def startMoving_def Let_def
      split: option.splits hit.splits if_splits prod.splits)

lemma numeric_fields:
  assumes "numeric b"
  shows "gridX b = Num (ival (gridX b))" "gridY b = Num (ival (gridY b))"
    "width b = Num (ival (width b))" "height b = Num (ival (height b))"
  using assms by (simp_all add: numeric_def isNum_ival)

lemma fitsInGrid_iff: "numeric b \<Longrightarrow> fitsInGrid b \<longleftrightarrow> inBounds_spec (rectOf b)"
proof -
  assume n: "numeric b"
  obtain x y w h where g: "gridX b = Num x" "gridY b = Num y" "width b = Num w" "height b = Num h"
    using numeric_fields [OF n] by blast
  show ?thesis by (simp add: fitsInGrid_def inBounds_spec_def rectOf_def g jge_def)
qed

lemma stored_numeric:
  assumes "numericStore st" and "r \<in> set (collectionOf ty st)"
  shows "numeric (heap st r)"
  using assms
  by (cases ty) (auto simp: numericStore_def stored_def buildingObjs_def decorationObjs_def
      enclosureObjs_def collectionOf_def list_all_iff)

lemma frame_numericStore:
  assumes "frame r st st'" and "numeric (heap st' r)" and "numericStore st"
  shows "numericStore st'"
proof -
  have h: "numeric (heap st' q)" if "numeric (heap st q)" for q
    using that assms(1,2) by (cases "q = r") (simp_all add: frame_def)
  show ?thesis
    using assms(3) h
    by (auto simp: numericStore_def stored_def buildingObjs_def decorationObjs_def enclosureObjs_def
        list_all_iff frame_fields(1,2,3) [OF assms(1)])
qed

lemma mouseMove_moving_numeric:
  assumes "resizingEnclosure st = None" and "movingItem st = Some m"
    and "isNum (offsetX m)" and "isNum (offsetY m)" and "numeric (heap st (mdata m))"
  shows "numeric (heap (handleGridMouseMove rect ev st) (mdata m))"
proof -
  obtain ox oy where o: "offsetX m = Num ox" "offsetY m = Num oy"
    using assms(3,4) isNum_ival by blast
  obtain w h where g: "width (heap st (mdata m)) = Num w" "height (heap st (mdata m)) = Num h"
    using numeric_fields [OF assms(5)] by blast
  show ?thesis
    using assms(1,2,5) by (simp add: handleGridMouseMove_def Let_def numeric_def o g)
qed

lemma mouseMoves_moving_numeric:
  assumes "resizingEnclosure st = None" and "movingItem st = Some m"
    and "isNum (offsetX m)" and "isNum (offsetY m)" and "numeric (heap st (mdata m))"
    and "numericStore st"
  shows "numericStore (mouseMoves rect evs st)" and "numeric (heap (mouseMoves rect evs st) (mdata m))"
proof -
  have "numericStore (mouseMoves rect evs st) \<and> numeric (heap (mouseMoves rect evs st) (mdata m))"
    using assms(1,2,5,6)
  proof (induction evs arbitrary: st)
    case Nil
    then show ?case by (simp add: mouseMoves_def)
  next
    case (Cons ev evs)
    let ?s = "handleGridMouseMove rect ev st"
    have fm: "frameMove (mdata m) st ?s" using Cons.prems(1,2) by (rule mouseMove_moving)
    then have f: "frame (mdata m) st ?s" by (simp add: frameMove_def)
    have n: "numeric (heap ?s (mdata m))"
      using Cons.prems(1,2) assms(3,4) Cons.prems(3) by (rule mouseMove_moving_numeric)
    have ns: "numericStore ?s" using f n Cons.prems(4) by (rule frame_numericStore)
    have "resizingEnclosure ?s = None" "movingItem ?s = Some m"
      using frame_fields(5,6) [OF f] Cons.prems(1,2) by simp_all
    from Cons.IH [OF this n ns] show ?case by (simp add: mouseMoves_def)
  qed
  then show "numericStore (mouseMoves rect evs st)"
    and "numeric (heap (mouseMoves rect evs st) (mdata m))" by simp_all
qed

lemma mouseUp_move_far:
  assumes "resizingEnclosure st = None" and "movingItem st = Some m" and "\<not> distanceMoved e st < 5"
  shows "handleGridMouseUp cats e st =
           (if \<not> fitsInGrid (heap st (mdata m)) \<or>
               checkOverlap st (gridX (heap st (mdata m))) (gridY (heap st (mdata m)))
                 (width (heap st (mdata m))) (height (heap st (mdata m))) (Some (mid m))
            then st\<lparr>heap := (heap st)(mdata m := (heap st (mdata m))\<lparr>gridX := originalX m, gridY := originalY m\<rparr>),
                    movingItem := None, moveStartPos := None\<rparr>
            else st\<lparr>movingItem := None, moveStartPos := None\<rparr>)"
  using assms by (simp add: handleGridMouseUp_def Let_def)

lemma mouseUp_move_click:
  assumes "resizingEnclosure st = None" and "movingItem st = Some m" and "distanceMoved e st < 5"
  shows "handleGridMouseUp cats e st =
           st\<lparr>heap := (heap st)(mdata m := (heap st (mdata m))\<lparr>gridX := originalX m, gridY := originalY m\<rparr>),
              dialogs := dialogs st @ [deleteRequest (mtype m) (mid m)],
              movingItem := None, moveStartPos := None\<rparr>"
  using assms
  by (cases "mtype m") (simp_all add: handleGridMouseUp_def Let_def showConfirmDialog_def deleteRequest_def)

lemma mouseUp_resize_click:
  assumes "resizingEnclosure st = Some rz" and "distanceMoved e st < 5"
  shows "handleGridMouseUp cats e st =
           st\<lparr>heap := (heap st)(r_enclosure rz := (heap st (r_enclosure rz))
                    \<lparr>gridX := g_gridX (originalData rz), gridY := g_gridY (originalData rz),
                     width := g_width (originalData rz), height := g_height (originalData rz)\<rparr>),
              dialogs := dialogs st @ [DeleteEnclosure (eid (heap st (r_enclosure rz)))],
              resizingEnclosure := None, moveStartPos := None\<rparr>"
  using assms
  by (simp add: handleGridMouseUp_def Let_def showConfirmDialog_def)

text \<open>
  The release of a move on a store that holds integers. The gesture starts on an item or
  enclosure in an idle state, goes through any pointer moves, and is released at least 5
  pixels from where it started. If the entity's rectangle at release is out of bounds or
  overlaps a stored entity with another id, its \<open>gridX\<close> and \<open>gridY\<close> after the release
  are those of the gesture's start, which are the recorded \<open>originalX\<close> and
  \<open>originalY\<close>; otherwise they are those at release.
\<close>

lemma move_release_reverts_invalid:
  assumes idle: "resizingEnclosure st0 = None" "movingItem st0 = None"
    and down: "st1 = handleGridMouseDown rect edgeDetect target e0 st0" "movingItem st1 = Some m"
    and moves: "st2 = mouseMoves rect evs st1"
    and numeric0: "numericStore st0"
    and far: "5 \<le> pixelDistance e0 e1"
    and up: "st3 = handleGridMouseUp cats e1 st2"
  shows "(if \<not> inBounds_spec (rectOf (heap st2 (mdata m))) \<or>
             (\<exists>b \<in> set (stored st2). eid b \<noteq> eid (heap st2 (mdata m)) \<and>
                overlaps_spec (rectOf (heap st2 (mdata m))) (rectOf b))
          then gridX (heap st3 (mdata m)) = gridX (heap st0 (mdata m)) \<and>
               gridY (heap st3 (mdata m)) = gridY (heap st0 (mdata m))
          else gridX (heap st3 (mdata m)) = gridX (heap st2 (mdata m)) \<and>
               gridY (heap st3 (mdata m)) = gridY (heap st2 (mdata m))) \<and>
         originalX m = gridX (heap st0 (mdata m)) \<and> originalY m = gridY (heap st0 (mdata m)) \<and>
         width (heap st3 (mdata m)) = width (heap st0 (mdata m)) \<and>
         height (heap st3 (mdata m)) = height (heap st0 (mdata m)) \<and>
         activeGesture st3 = None"
proof -
  let ?r = "mdata m"
  note d = mouseDown_moving [OF idle(2) down(2) [unfolded down(1)], folded down(1)]
  have r1: "resizingEnclosure st1 = None"
    using mouseDown_no_resizing [OF idle(1) down(2) [unfolded down(1)] idle(2)] down(1) by simp
  have h1: "heap st1 = heap st0" "moveStartPos st1 = Some (clientX e0, clientY e0)"
    by (simp_all add: d(1))
  have fm: "frameMove ?r st1 st2" unfolding moves using r1 down(2) by (rule mouseMoves_moving)
  then have f: "frame ?r st1 st2" by (simp add: frameMove_def)
  have s2: "resizingEnclosure st2 = None" "movingItem st2 = Some m"
      "moveStartPos st2 = Some (clientX e0, clientY e0)"
    using frame_fields(5,6,7) [OF f] r1 down(2) h1(2) by simp_all
  have wh: "width (heap st2 ?r) = width (heap st0 ?r)" "height (heap st2 ?r) = height (heap st0 ?r)"
      "eid (heap st2 ?r) = mid m"
    using fm frame_fields(8) [OF f, of ?r] d(4) by (simp_all add: frameMove_def h1(1))
  have notclick: "\<not> distanceMoved e1 st2 < 5"
    using far distance_of_start [OF s2(3), of e1] by simp
  note upeq = mouseUp_move_far [OF s2(1) s2(2) notclick, of cats, folded up]
  have n0: "numeric (heap st0 ?r)"
    using stored_numeric [OF numeric0 d(7)] .
  have n1: "numericStore st1" "numeric (heap st1 ?r)"
    using numeric0 n0 by (simp_all add: d(1) numericStore_def stored_def buildingObjs_def
        decorationObjs_def enclosureObjs_def)
  have off: "isNum (offsetX m)" "isNum (offsetY m)"
    using numeric_fields [OF n0] by (simp_all add: d(5,6)) (metis isNum.simps(1) jsub.simps(1))+
  note numeric = mouseMoves_moving_numeric [OF r1 down(2) off n1(2) n1(1), of rect evs, folded moves]
  obtain x y w h where g: "gridX (heap st2 ?r) = Num x" "gridY (heap st2 ?r) = Num y"
      "width (heap st2 ?r) = Num w" "height (heap st2 ?r) = Num h"
    using numeric_fields [OF numeric(2)] by blast
  have cond: "(\<not> fitsInGrid (heap st2 ?r) \<or>
               checkOverlap st2 (gridX (heap st2 ?r)) (gridY (heap st2 ?r))
                 (width (heap st2 ?r)) (height (heap st2 ?r)) (Some (mid m)))
             \<longleftrightarrow> (\<not> inBounds_spec (rectOf (heap st2 ?r)) \<or>
             (\<exists>b \<in> set (stored st2). eid b \<noteq> eid (heap st2 ?r) \<and>
                overlaps_spec (rectOf (heap st2 ?r)) (rectOf b)))"
    unfolding fitsInGrid_iff [OF numeric(2)] g checkOverlap_iff [OF numeric(1)]
    by (simp add: rectOf_def g wh(3) [symmetric])
  show ?thesis
    unfolding cond [symmetric]
    by (simp add: upeq d(2,3) wh activeGesture_def s2(1))
qed

lemma move_release_reverts_invalid_example:
  "resizingEnclosure exampleZoo = None \<and> movingItem exampleZoo = None \<and> numericStore exampleZoo \<and>
   movingItem (handleGridMouseDown gridRect None (HitBuilding ''restaurant-1'') pressRestaurant exampleZoo)
     = Some restaurantMove \<and>
   5 \<le> pixelDistance pressRestaurant overEnclosure \<and>
   geometryOf (heap (mouseMoves gridRect [overEnclosure]
       (handleGridMouseDown gridRect None (HitBuilding ''restaurant-1'') pressRestaurant exampleZoo)) 0)
     = \<lparr>g_gridX = Num 1, g_gridY = Num 1, g_width = Num 3, g_height = Num 2\<rparr> \<and>
   gridX (heap (handleGridMouseUp exampleCats overEnclosure (mouseMoves gridRect [overEnclosure]
       (handleGridMouseDown gridRect None (HitBuilding ''restaurant-1'') pressRestaurant exampleZoo))) 0)
     = Num 5 \<and>
   gridY (heap (handleGridMouseUp exampleCats overEnclosure (mouseMoves gridRect [overEnclosure]
       (handleGridMouseDown gridRect None (HitBuilding ''restaurant-1'') pressRestaurant exampleZoo))) 0)
     = Num 5 \<and>
   5 \<le> pixelDistance pressRestaurant overFreeCells \<and>
   gridX (heap (handleGridMouseUp exampleCats overFreeCells (mouseMoves gridRect [overEnclosure, overFreeCells]
       (handleGridMouseDown gridRect None (HitBuilding ''restaurant-1'') pressRestaurant exampleZoo))) 0)
     = Num 15 \<and>
   gridY (heap (handleGridMouseUp exampleCats overFreeCells (mouseMoves gridRect [overEnclosure, overFreeCells]
       (handleGridMouseDown gridRect None (HitBuilding ''restaurant-1'') pressRestaurant exampleZoo))) 0)
     = Num 15"
proof -
  let ?st1 = "handleGridMouseDown gridRect None (HitBuilding ''restaurant-1'') pressRestaurant exampleZoo"
  let ?st2 = "mouseMoves gridRect [overEnclosure] ?st1"
  let ?st2' = "mouseMoves gridRect [overEnclosure, overFreeCells] ?st1"
  have i: "resizingEnclosure exampleZoo = None" "movingItem exampleZoo = None" by code_simp+
  have n: "numericStore exampleZoo" by code_simp
  have d: "movingItem ?st1 = Some restaurantMove" by code_simp
  have r: "mdata restaurantMove = 0" by code_simp
  have far: "5 \<le> pixelDistance pressRestaurant overEnclosure"
    by (simp add: pixelDistance_def pressRestaurant_def overEnclosure_def real_le_rsqrt)
  have far': "5 \<le> pixelDistance pressRestaurant overFreeCells"
    by (simp add: pixelDistance_def pressRestaurant_def overFreeCells_def real_le_rsqrt)
  have g2: "geometryOf (heap ?st2 0) = \<lparr>g_gridX = Num 1, g_gridY = Num 1, g_width = Num 3, g_height = Num 2\<rparr>"
    by code_simp
  have bad: "\<exists>b \<in> set (stored ?st2). eid b \<noteq> eid (heap ?st2 0) \<and>
                overlaps_spec (rectOf (heap ?st2 0)) (rectOf b)"
    by code_simp
  have good: "\<not> (\<not> inBounds_spec (rectOf (heap ?st2' 0)) \<or>
              (\<exists>b \<in> set (stored ?st2'). eid b \<noteq> eid (heap ?st2' 0) \<and>
                overlaps_spec (rectOf (heap ?st2' 0)) (rectOf b)))"
    by code_simp
  have p0: "gridX (heap exampleZoo 0) = Num 5" "gridY (heap exampleZoo 0) = Num 5" by code_simp+
  have p2: "gridX (heap ?st2' 0) = Num 15" "gridY (heap ?st2' 0) = Num 15" by code_simp+
  note T1 = move_release_reverts_invalid [where evs = "[overEnclosure]" and cats = exampleCats,
      OF i refl d refl n far refl, THEN conjunct1, unfolded r]
  have bad': "\<not> inBounds_spec (rectOf (heap ?st2 0)) \<or>
              (\<exists>b \<in> set (stored ?st2). eid b \<noteq> eid (heap ?st2 0) \<and>
                overlaps_spec (rectOf (heap ?st2 0)) (rectOf b))"
    using bad by (rule disjI2)
  have A: "gridX (heap (handleGridMouseUp exampleCats overEnclosure ?st2) 0) = Num 5 \<and>
           gridY (heap (handleGridMouseUp exampleCats overEnclosure ?st2) 0) = Num 5"
    using T1 unfolding if_P [OF bad'] p0 .
  note T2 = move_release_reverts_invalid [where evs = "[overEnclosure, overFreeCells]" and cats = exampleCats,
      OF i refl d refl n far' refl, THEN conjunct1, unfolded r]
  have B: "gridX (heap (handleGridMouseUp exampleCats overFreeCells ?st2') 0) = Num 15 \<and>
           gridY (heap (handleGridMouseUp exampleCats overFreeCells ?st2') 0) = Num 15"
    using T2 unfolding if_not_P [OF good] p2 .
  from i n d far far' g2 A B show ?thesis by blast
qed

text \<open>
  Claim C3 fails in a store that holds an entity with \<open>NaN\<close> geometry, which
  \<open>loadFromURL\<close> puts there for a character that is no base-36 digit: every comparison
  of \<open>checkOverlap\<close> with that entity is false, so the negated test reports an overlap
  for any rectangle. The enclosure released on the free cells at (20, 0), in bounds and
  overlapping nothing, is put back at (10, 0), where the gesture started.
\<close>

theorem move_release_reverts_beside_NaN:
  "stored nanZoo =
     [\<lparr>eid = ''giftshop-1'', gridX = NaN, gridY = Num 0, width = Num 3, height = Num 2, animal = None\<rparr>,
      \<lparr>eid = ''enclosure-1'', gridX = Num 10, gridY = Num 0, width = Num 4, height = Num 3,
       animal = Some ''lion''\<rparr>] \<and>
   resizingEnclosure nanZoo = None \<and> movingItem nanZoo = None \<and>
   movingItem nanPressed = Some penMove \<and>
   heap nanDragged 1 = \<lparr>eid = ''enclosure-1'', gridX = Num 20, gridY = Num 0, width = Num 4,
                          height = Num 3, animal = Some ''lion''\<rparr> \<and>
   5 \<le> pixelDistance pressPen overFreeStrip \<and>
   fitsInGrid (heap nanDragged 1) \<and>
   \<not> (\<exists>b \<in> set (stored nanDragged). eid b \<noteq> ''enclosure-1'' \<and> overlapsJS (heap nanDragged 1) b) \<and>
   checkOverlap nanDragged (Num 20) (Num 0) (Num 4) (Num 3) (Some ''enclosure-1'') \<and>
   heap nanReleased 1 = \<lparr>eid = ''enclosure-1'', gridX = Num 10, gridY = Num 0, width = Num 4,
                           height = Num 3, animal = Some ''lion''\<rparr>"
proof -
  have a: "stored nanZoo =
     [\<lparr>eid = ''giftshop-1'', gridX = NaN, gridY = Num 0, width = Num 3, height = Num 2, animal = None\<rparr>,
      \<lparr>eid = ''enclosure-1'', gridX = Num 10, gridY = Num 0, width = Num 4, height = Num 3,
       animal = Some ''lion''\<rparr>]" by code_simp
  have i: "resizingEnclosure nanZoo = None" "movingItem nanZoo = None" by code_simp+
  have p: "movingItem nanPressed = Some penMove" by code_simp
  have d: "heap nanDragged 1 = \<lparr>eid = ''enclosure-1'', gridX = Num 20, gridY = Num 0, width = Num 4,
                          height = Num 3, animal = Some ''lion''\<rparr>" by code_simp
  have far: "5 \<le> pixelDistance pressPen overFreeStrip"
    by (simp add: pixelDistance_def pressPen_def overFreeStrip_def real_le_rsqrt)
  have f: "fitsInGrid (heap nanDragged 1)" by code_simp
  have n: "\<not> (\<exists>b \<in> set (stored nanDragged). eid b \<noteq> ''enclosure-1'' \<and> overlapsJS (heap nanDragged 1) b)"
    by code_simp
  have c: "checkOverlap nanDragged (Num 20) (Num 0) (Num 4) (Num 3) (Some ''enclosure-1'')"
    by code_simp
  have s2: "resizingEnclosure nanDragged = None" "movingItem nanDragged = Some penMove" by code_simp+
  have ms: "moveStartPos nanDragged = Some (clientX pressPen, clientY pressPen)" by code_simp
  have nf: "\<not> distanceMoved overFreeStrip nanDragged < 5"
    using far distance_of_start [OF ms, of overFreeStrip] by simp
  have cond: "\<not> fitsInGrid (heap nanDragged (mdata penMove)) \<or>
      checkOverlap nanDragged (gridX (heap nanDragged (mdata penMove))) (gridY (heap nanDragged (mdata penMove)))
        (width (heap nanDragged (mdata penMove))) (height (heap nanDragged (mdata penMove)))
        (Some (mid penMove))" by code_simp
  have orig: "(heap nanDragged (mdata penMove))\<lparr>gridX := originalX penMove, gridY := originalY penMove\<rparr> =
      \<lparr>eid = ''enclosure-1'', gridX = Num 10, gridY = Num 0, width = Num 4,
                           height = Num 3, animal = Some ''lion''\<rparr>" by code_simp
  have r: "mdata penMove = 1" by code_simp
  have "heap nanReleased (mdata penMove) =
      (heap nanDragged (mdata penMove))\<lparr>gridX := originalX penMove, gridY := originalY penMove\<rparr>"
    unfolding nanReleased_def mouseUp_move_far [OF s2 nf] if_P [OF cond] by simp
  then have e: "heap nanReleased 1 = \<lparr>eid = ''enclosure-1'', gridX = Num 10, gridY = Num 0, width = Num 4,
                           height = Num 3, animal = Some ''lion''\<rparr>"
    unfolding r orig [unfolded r] .
  from a i p d far f n c e show ?thesis by blast
qed

lemma resizeCandidate_numeric:
  assumes "numeric enc"
  shows "isNum (g_gridX (resizeCandidate edge enc point))" "isNum (g_gridY (resizeCandidate edge enc point))"
    "isNum (g_width (resizeCandidate edge enc point))" "isNum (g_height (resizeCandidate edge enc point))"
proof -
  obtain x y w h where g: "gridX enc = Num x" "gridY enc = Num y" "width enc = Num w" "height enc = Num h"
    using numeric_fields [OF assms] by blast
  show "isNum (g_gridX (resizeCandidate edge enc point))" "isNum (g_gridY (resizeCandidate edge enc point))"
    "isNum (g_width (resizeCandidate edge enc point))" "isNum (g_height (resizeCandidate edge enc point))"
    by (simp_all add: resizeCandidate_def Let_def g)
qed

lemma overlapLoop_member:
  assumes "b \<in> set bs" and "Some (eid b) \<noteq> ex" and "numeric b"
    and "overlaps_spec (x, y, w, h) (rectOf b)"
  shows "overlapLoop (Num x) (Num y) (Num w) (Num h) ex bs"
  using assms(1)
proof (induction bs)
  case Nil
  then show ?case by simp
next
  case (Cons a as)
  show ?case
  proof (cases "a = b")
    case True
    obtain bx "by" bw bh
      where g: "gridX b = Num bx" "gridY b = Num by" "width b = Num bw" "height b = Num bh"
      using assms(3) unfolding numeric_def by (metis isNum_ival)
    have "\<not> (jle (jadd (Num x) (Num w)) (gridX b) \<or> jge (Num x) (jadd (gridX b) (width b)) \<or>
              jle (jadd (Num y) (Num h)) (gridY b) \<or> jge (Num y) (jadd (gridY b) (height b)))"
      using assms(4) by (auto simp: g jge_def overlaps_spec_def rectOf_def)
    then show ?thesis using assms(2) True by simp
  next
    case False
    with Cons.prems have "b \<in> set as" by simp
    then have "overlapLoop (Num x) (Num y) (Num w) (Num h) ex as" by (rule Cons.IH)
    then show ?thesis by simp
  qed
qed

lemma checkOverlap_member:
  assumes "b \<in> set (stored st)" and "Some (eid b) \<noteq> ex" and "numeric b"
    and "overlaps_spec (x, y, w, h) (rectOf b)"
  shows "checkOverlap st (Num x) (Num y) (Num w) (Num h) ex"
proof -
  from assms(1) consider "b \<in> set (buildingObjs st)" | "b \<in> set (decorationObjs st)"
    | "b \<in> set (enclosureObjs st)"
    by (auto simp: stored_def)
  then show ?thesis
    using overlapLoop_member [OF _ assms(2,3,4)] by cases (auto simp: checkOverlap_def)
qed

text \<open>
  Claim C4: during a resize gesture, when the clamped candidate rectangle of a pointer-move
  event overlaps a stored entity whose id is not that of the enclosure being resized
  (\<open>checkOverlap\<close> excludes by id), the event changes nothing: the enclosure keeps the
  geometry it had before the event, and the rest of the state is untouched as well.
\<close>

theorem resize_overlap_rejected:
  assumes "resizingEnclosure st = Some resize"
    and "enc = heap st (r_enclosure resize)"
    and "c = resizeCandidate (r_edge resize) enc (getGridPoint rect e)"
    and "numeric enc"
    and "\<exists>b \<in> set (stored st). eid b \<noteq> eid enc \<and> numeric b \<and>
           overlaps_spec (ival (g_gridX c), ival (g_gridY c), ival (g_width c), ival (g_height c)) (rectOf b)"
  shows "handleGridMouseMove rect e st = st \<and>
         geometryOf (heap (handleGridMouseMove rect e st) (r_enclosure resize)) = geometryOf enc"
proof -
  note n = resizeCandidate_numeric [OF assms(4), of "r_edge resize" "getGridPoint rect e", folded assms(3)]
  obtain x y w h where g: "g_gridX c = Num x" "g_gridY c = Num y" "g_width c = Num w" "g_height c = Num h"
    using n isNum_ival by blast
  from assms(5) obtain b where b: "b \<in> set (stored st)" "Some (eid b) \<noteq> Some (eid enc)" "numeric b"
      "overlaps_spec (x, y, w, h) (rectOf b)"
    by (auto simp: g)
  have "checkOverlap st (g_gridX c) (g_gridY c) (g_width c) (g_height c) (Some (eid enc))"
    unfolding g using b by (rule checkOverlap_member)
  then have "handleGridMouseMove rect e st = st"
    using assms(1) by (simp add: handleGridMouseMove_def Let_def assms(2) [symmetric] assms(3) [symmetric])
  then show ?thesis by (simp add: assms(2))
qed

theorem resize_overlap_rejected_witness:
  "resizingEnclosure resizingZoo = Some cornerResize \<and>
   numeric (heap resizingZoo 2) \<and>
   geometryOf (heap resizingZoo 2) = \<lparr>g_gridX = Num 0, g_gridY = Num 0, g_width = Num 4, g_height = Num 3\<rparr> \<and>
   resizeCandidate cornerSE (heap resizingZoo 2) (getGridPoint gridRect pressRestaurant) =
     \<lparr>g_gridX = Num 0, g_gridY = Num 0, g_width = Num 6, g_height = Num 6\<rparr> \<and>
   (\<exists>b \<in> set (stored resizingZoo). eid b \<noteq> eid (heap resizingZoo 2) \<and> numeric b \<and>
        overlaps_spec (0, 0, 6, 6) (rectOf b)) \<and>
   handleGridMouseMove gridRect pressRestaurant resizingZoo = resizingZoo \<and>
   geometryOf (heap (handleGridMouseMove gridRect pressRestaurant resizingZoo) 2) =
     \<lparr>g_gridX = Num 0, g_gridY = Num 0, g_width = Num 4, g_height = Num 3\<rparr> \<and>
   geometryOf (heap (handleGridMouseMove gridRect widen resizingZoo) 2) =
     \<lparr>g_gridX = Num 0, g_gridY = Num 0, g_width = Num 6, g_height = Num 2\<rparr>"
proof -
  have h1: "resizingEnclosure resizingZoo = Some cornerResize" by code_simp
  have r: "r_enclosure cornerResize = 2" "r_edge cornerResize = cornerSE" by code_simp+
  have h5: "numeric (heap resizingZoo 2)" by code_simp
  have g: "geometryOf (heap resizingZoo 2) =
      \<lparr>g_gridX = Num 0, g_gridY = Num 0, g_width = Num 4, g_height = Num 3\<rparr>" by code_simp
  have c: "resizeCandidate cornerSE (heap resizingZoo 2) (getGridPoint gridRect pressRestaurant) =
     \<lparr>g_gridX = Num 0, g_gridY = Num 0, g_width = Num 6, g_height = Num 6\<rparr>" by code_simp
  have h6: "\<exists>b \<in> set (stored resizingZoo). eid b \<noteq> eid (heap resizingZoo 2) \<and> numeric b \<and>
        overlaps_spec (0, 0, 6, 6) (rectOf b)" by code_simp
  have acc: "geometryOf (heap (handleGridMouseMove gridRect widen resizingZoo) 2) =
     \<lparr>g_gridX = Num 0, g_gridY = Num 0, g_width = Num 6, g_height = Num 2\<rparr>" by code_simp
  have h2: "heap resizingZoo 2 = heap resizingZoo (r_enclosure cornerResize)" by (simp add: r)
  have h3: "\<lparr>g_gridX = Num 0, g_gridY = Num 0, g_width = Num 6, g_height = Num 6\<rparr> =
      resizeCandidate (r_edge cornerResize) (heap resizingZoo 2) (getGridPoint gridRect pressRestaurant)"
    by (simp add: r c)
  have h6': "\<exists>b \<in> set (stored resizingZoo). eid b \<noteq> eid (heap resizingZoo 2) \<and> numeric b \<and>
        overlaps_spec (ival (g_gridX \<lparr>g_gridX = Num 0, g_gridY = Num 0, g_width = Num 6, g_height = Num 6\<rparr>),
                       ival (g_gridY \<lparr>g_gridX = Num 0, g_gridY = Num 0, g_width = Num 6, g_height = Num 6\<rparr>),
                       ival (g_width \<lparr>g_gridX = Num 0, g_gridY = Num 0, g_width = Num 6, g_height = Num 6\<rparr>),
                       ival (g_height \<lparr>g_gridX = Num 0, g_gridY = Num 0, g_width = Num 6, g_height = Num 6\<rparr>))
          (rectOf b)"
    using h6 by simp
  note T = resize_overlap_rejected [OF h1 h2 h3 h5 h6', unfolded r g]
  from h1 h5 g c h6 acc T show ?thesis by blast
qed

lemma renderAnimalList_fields:
  "heap (renderAnimalList cats st) = heap st"
  "placedBuildings (renderAnimalList cats st) = placedBuildings st"
  "placedDecorations (renderAnimalList cats st) = placedDecorations st"
  "enclosures (renderAnimalList cats st) = enclosures st"
  by (simp_all add: renderAnimalList_def selectAnimal_def Let_def split: list.splits option.splits)

lemma dialog_outcomes:
  assumes "dialogs st = ds @ [deleteRequest ty i]"
  shows "collectionOf ty (clickNo (length ds) st) = collectionOf ty st"
    and "collectionOf ty (clickYes cats (length ds) st) = filter (\<lambda>q. eid (heap st q) \<noteq> i) (collectionOf ty st)"
proof -
  show "collectionOf ty (clickNo (length ds) st) = collectionOf ty st"
    using assms by (cases ty) (simp_all add: clickNo_def closeDialog_def collectionOf_def)
  show "collectionOf ty (clickYes cats (length ds) st) = filter (\<lambda>q. eid (heap st q) \<noteq> i) (collectionOf ty st)"
    using assms
    by (cases ty)
      (simp_all add: clickYes_def closeDialog_def collectionOf_def deleteRequest_def
        deleteEnclosure_def deleteBuilding_def deleteDecoration_def renderAnimalList_fields)
qed

lemma click_outcome:
  assumes f0: "placedBuildings st3 = placedBuildings st0" "placedDecorations st3 = placedDecorations st0"
      "enclosures st3 = enclosures st0"
    and ids: "\<And>q. eid (heap st3 q) = eid (heap st0 q)"
    and dl: "dialogs st3 = dialogs st0 @ [deleteRequest ty (eid (heap st0 r))]"
  shows "collectionOf ty (clickNo (length (dialogs st0)) st3) = collectionOf ty st0"
    and "collectionOf ty (clickYes cats (length (dialogs st0)) st3) =
           filter (\<lambda>q. eid (heap st0 q) \<noteq> eid (heap st0 r)) (collectionOf ty st0)"
proof -
  have c: "collectionOf ty st3 = collectionOf ty st0"
    using f0 by (cases ty) (simp_all add: collectionOf_def)
  show "collectionOf ty (clickNo (length (dialogs st0)) st3) = collectionOf ty st0"
    using dialog_outcomes(1) [OF dl] c by simp
  show "collectionOf ty (clickYes cats (length (dialogs st0)) st3) =
           filter (\<lambda>q. eid (heap st0 q) \<noteq> eid (heap st0 r)) (collectionOf ty st0)"
    using dialog_outcomes(2) [OF dl, of cats] c ids by simp
qed

text \<open>
  Claim C6: a move or resize gesture starts in an idle state, goes through any pointer
  moves, and is released less than 5 pixels from where it started. Then the release commits
  nothing: the entity has the geometry it had when the gesture started, nothing has been
  removed from the three arrays, the gesture is over, and one confirmation dialog has been
  opened whose closure deletes the entity by its id. Closing that dialog with No leaves the
  entity's array as it was; clicking Yes removes the entities with that id from it.
\<close>

theorem click_requests_delete:
  assumes idle: "resizingEnclosure st0 = None" "movingItem st0 = None"
    and down: "st1 = handleGridMouseDown rect edgeDetect target e0 st0" "activeGesture st1 = Some (ty, r)"
    and moves: "st2 = mouseMoves rect evs st1"
    and near: "pixelDistance e0 e1 < 5"
    and up: "st3 = handleGridMouseUp cats e1 st2"
  shows "geometryOf (heap st3 r) = geometryOf (heap st0 r) \<and>
         placedBuildings st3 = placedBuildings st0 \<and>
         placedDecorations st3 = placedDecorations st0 \<and>
         enclosures st3 = enclosures st0 \<and>
         dialogs st3 = dialogs st0 @ [deleteRequest ty (eid (heap st0 r))] \<and>
         activeGesture st3 = None \<and>
         collectionOf ty (clickNo (length (dialogs st0)) st3) = collectionOf ty st0 \<and>
         collectionOf ty (clickYes cats (length (dialogs st0)) st3) =
           filter (\<lambda>q. eid (heap st0 q) \<noteq> eid (heap st0 r)) (collectionOf ty st0)"
proof -
  have main: "geometryOf (heap st3 r) = geometryOf (heap st0 r) \<and>
         placedBuildings st3 = placedBuildings st0 \<and>
         placedDecorations st3 = placedDecorations st0 \<and>
         enclosures st3 = enclosures st0 \<and>
         dialogs st3 = dialogs st0 @ [deleteRequest ty (eid (heap st0 r))] \<and>
         activeGesture st3 = None \<and> (\<forall>q. eid (heap st3 q) = eid (heap st0 q))"
  proof (cases "resizingEnclosure st1")
    case None
    with down(2) obtain m where m: "movingItem st1 = Some m" and ty: "ty = mtype m" and r: "r = mdata m"
      by (auto simp: activeGesture_def split: option.splits)
    note d = mouseDown_moving [OF idle(2) m [unfolded down(1)], folded down(1)]
    have h1: "heap st1 = heap st0" "moveStartPos st1 = Some (clientX e0, clientY e0)"
        "placedBuildings st1 = placedBuildings st0" "placedDecorations st1 = placedDecorations st0"
        "enclosures st1 = enclosures st0" "dialogs st1 = dialogs st0"
      by (simp_all add: d(1))
    have fm: "frameMove r st1 st2" unfolding moves r using None m by (rule mouseMoves_moving)
    then have f: "frame r st1 st2" by (simp add: frameMove_def)
    note ff = frame_fields [OF f]
    have s2: "resizingEnclosure st2 = None" "movingItem st2 = Some m"
        "moveStartPos st2 = Some (clientX e0, clientY e0)"
      using ff(5,6,7) None m h1(2) by simp_all
    have click: "distanceMoved e1 st2 < 5"
      using near distance_of_start [OF s2(3), of e1] by simp
    note upeq = mouseUp_move_click [OF s2(1) s2(2) click, of cats, folded up]
    have wh: "width (heap st2 r) = width (heap st0 r)" "height (heap st2 r) = height (heap st0 r)"
      using fm by (simp_all add: frameMove_def h1(1))
    have ids: "eid (heap st3 q) = eid (heap st0 q)" for q
      using ff(8) [of q] by (cases "q = r") (simp_all add: upeq h1(1) r)
    show ?thesis
      using ids
      by (simp add: upeq geometryOf_def d(2,3,4) [folded r] wh ff(1,2,3,4) h1 ty r [symmetric]
          activeGesture_def s2(1))
  next
    case (Some rz)
    with down(2) have ty: "ty = TEnclosure" and r: "r = r_enclosure rz"
      by (auto simp: activeGesture_def)
    note d = mouseDown_resizing [OF idle(1) Some [unfolded down(1)], folded down(1)]
    have h1: "heap st1 = heap st0" "moveStartPos st1 = Some (clientX e0, clientY e0)"
        "placedBuildings st1 = placedBuildings st0" "placedDecorations st1 = placedDecorations st0"
        "enclosures st1 = enclosures st0" "dialogs st1 = dialogs st0" "movingItem st1 = None"
      by (simp_all add: d(1) idle(2))
    have f: "frame r st1 st2" unfolding moves r using Some by (rule mouseMoves_resizing)
    note ff = frame_fields [OF f]
    have s2: "resizingEnclosure st2 = Some rz" "movingItem st2 = None"
        "moveStartPos st2 = Some (clientX e0, clientY e0)"
      using ff(5,6,7) Some h1(2,7) by simp_all
    have click: "distanceMoved e1 st2 < 5"
      using near distance_of_start [OF s2(3), of e1] by simp
    note upeq = mouseUp_resize_click [OF s2(1) click, of cats, folded up r]
    have ids: "eid (heap st3 q) = eid (heap st0 q)" for q
      using ff(8) [of q] by (cases "q = r") (simp_all add: upeq h1(1))
    show ?thesis
      using ids ff(8) [of r]
      by (simp add: upeq geometryOf_def d(2) [folded r] ff(1,2,3,4) h1 ty
          activeGesture_def s2(2) deleteRequest_def)
  qed
  then have f0: "placedBuildings st3 = placedBuildings st0" "placedDecorations st3 = placedDecorations st0"
      "enclosures st3 = enclosures st0"
    and ids: "\<And>q. eid (heap st3 q) = eid (heap st0 q)"
    and dl: "dialogs st3 = dialogs st0 @ [deleteRequest ty (eid (heap st0 r))]"
    by simp_all
  from main click_outcome(1) [OF f0 ids dl] click_outcome(2) [OF f0 ids dl, of cats] show ?thesis by simp
qed

theorem click_requests_delete_witness:
  "resizingEnclosure exampleZoo = None \<and> movingItem exampleZoo = None \<and>
   activeGesture (handleGridMouseDown gridRect None (HitBuilding ''restaurant-1'') pressRestaurant exampleZoo)
     = Some (TBuilding, 0) \<and>
   pixelDistance pressRestaurant nextToPress < 5 \<and>
   geometryOf (heap (mouseMoves gridRect [overEnclosure]
       (handleGridMouseDown gridRect None (HitBuilding ''restaurant-1'') pressRestaurant exampleZoo)) 0)
     = \<lparr>g_gridX = Num 1, g_gridY = Num 1, g_width = Num 3, g_height = Num 2\<rparr> \<and>
   geometryOf (heap (handleGridMouseUp exampleCats nextToPress (mouseMoves gridRect [overEnclosure]
       (handleGridMouseDown gridRect None (HitBuilding ''restaurant-1'') pressRestaurant exampleZoo))) 0)
     = \<lparr>g_gridX = Num 5, g_gridY = Num 5, g_width = Num 3, g_height = Num 2\<rparr> \<and>
   placedBuildings (handleGridMouseUp exampleCats nextToPress (mouseMoves gridRect [overEnclosure]
       (handleGridMouseDown gridRect None (HitBuilding ''restaurant-1'') pressRestaurant exampleZoo)))
     = [0] \<and>
   dialogs (handleGridMouseUp exampleCats nextToPress (mouseMoves gridRect [overEnclosure]
       (handleGridMouseDown gridRect None (HitBuilding ''restaurant-1'') pressRestaurant exampleZoo)))
     = [DeleteBuilding ''restaurant-1''] \<and>
   placedBuildings (clickNo 0 (handleGridMouseUp exampleCats nextToPress (mouseMoves gridRect [overEnclosure]
       (handleGridMouseDown gridRect None (HitBuilding ''restaurant-1'') pressRestaurant exampleZoo))))
     = [0] \<and>
   placedBuildings (clickYes exampleCats 0 (handleGridMouseUp exampleCats nextToPress
       (mouseMoves gridRect [overEnclosure]
       (handleGridMouseDown gridRect None (HitBuilding ''restaurant-1'') pressRestaurant exampleZoo))))
     = [] \<and>
   activeGesture resizingZoo = Some (TEnclosure, 2) \<and>
   pixelDistance pressCorner nextToCorner < 5 \<and>
   geometryOf (heap (mouseMoves gridRect [widen] resizingZoo) 2)
     = \<lparr>g_gridX = Num 0, g_gridY = Num 0, g_width = Num 6, g_height = Num 2\<rparr> \<and>
   geometryOf (heap (handleGridMouseUp exampleCats nextToCorner (mouseMoves gridRect [widen] resizingZoo)) 2)
     = \<lparr>g_gridX = Num 0, g_gridY = Num 0, g_width = Num 4, g_height = Num 3\<rparr> \<and>
   dialogs (handleGridMouseUp exampleCats nextToCorner (mouseMoves gridRect [widen] resizingZoo))
     = [DeleteEnclosure ''enclosure-1''] \<and>
   enclosures (clickYes exampleCats 0
       (handleGridMouseUp exampleCats nextToCorner (mouseMoves gridRect [widen] resizingZoo)))
     = []"
proof -
  let ?st1 = "handleGridMouseDown gridRect None (HitBuilding ''restaurant-1'') pressRestaurant exampleZoo"
  let ?st2 = "mouseMoves gridRect [overEnclosure] ?st1"
  let ?st3 = "handleGridMouseUp exampleCats nextToPress ?st2"
  let ?rt2 = "mouseMoves gridRect [widen] resizingZoo"
  let ?rt3 = "handleGridMouseUp exampleCats nextToCorner ?rt2"
  have i: "resizingEnclosure exampleZoo = None" "movingItem exampleZoo = None" by code_simp+
  have a1: "activeGesture ?st1 = Some (TBuilding, 0)" by code_simp
  have a2: "activeGesture resizingZoo = Some (TEnclosure, 2)" by code_simp
  have near1: "pixelDistance pressRestaurant nextToPress < 5"
    by (simp add: pixelDistance_def pressRestaurant_def nextToPress_def real_less_lsqrt)
  have near2: "pixelDistance pressCorner nextToCorner < 5"
    by (simp add: pixelDistance_def pressCorner_def nextToCorner_def real_less_lsqrt)
  have g2: "geometryOf (heap ?st2 0) = \<lparr>g_gridX = Num 1, g_gridY = Num 1, g_width = Num 3, g_height = Num 2\<rparr>"
    by code_simp
  have k2: "geometryOf (heap ?rt2 2) = \<lparr>g_gridX = Num 0, g_gridY = Num 0, g_width = Num 6, g_height = Num 2\<rparr>"
    by code_simp
  have e0: "geometryOf (heap exampleZoo 0) = \<lparr>g_gridX = Num 5, g_gridY = Num 5, g_width = Num 3, g_height = Num 2\<rparr>"
    "geometryOf (heap exampleZoo 2) = \<lparr>g_gridX = Num 0, g_gridY = Num 0, g_width = Num 4, g_height = Num 3\<rparr>"
    "placedBuildings exampleZoo = [0]" "enclosures exampleZoo = [2]" "dialogs exampleZoo = []"
    "deleteRequest TBuilding (eid (heap exampleZoo 0)) = DeleteBuilding ''restaurant-1''"
    "deleteRequest TEnclosure (eid (heap exampleZoo 2)) = DeleteEnclosure ''enclosure-1''"
    "filter (\<lambda>q. eid (heap exampleZoo q) \<noteq> eid (heap exampleZoo 0)) (collectionOf TBuilding exampleZoo) = []"
    "filter (\<lambda>q. eid (heap exampleZoo q) \<noteq> eid (heap exampleZoo 2)) (collectionOf TEnclosure exampleZoo) = []"
    "collectionOf TBuilding exampleZoo = [0]"
    by code_simp+
  have c: "collectionOf TBuilding s = placedBuildings s" "collectionOf TEnclosure s = enclosures s" for s
    by (simp_all add: collectionOf_def)
  note T1 = click_requests_delete [where evs = "[overEnclosure]" and cats = exampleCats,
      OF i refl a1 refl near1 refl, unfolded e0 c list.size]
  note T2 = click_requests_delete [where evs = "[widen]" and cats = exampleCats,
      OF i resizingZoo_def a2 refl near2 refl, unfolded e0 c list.size]
  from i a1 a2 near1 near2 g2 k2 T1 T2 show ?thesis by simp
qed

subsection \<open>Validation and the invariants\<close>

lemma isValidPlacement_iff:
  assumes "numericStore st" and "numeric enc"
  shows "isValidPlacement st enc \<longleftrightarrow> placementValid_spec st enc"
proof -
  obtain x y w h where g: "gridX enc = Num x" "gridY enc = Num y" "width enc = Num w" "height enc = Num h"
    using numeric_fields [OF assms(2)] by blast
  show ?thesis
    unfolding isValidPlacement_def placementValid_spec_def fitsInGrid_iff [OF assms(2)] g
      checkOverlap_iff [OF assms(1)]
    by (simp add: rectOf_def g)
qed

text \<open>
  The status of an enclosure on integer data, for an animal that is in the catalog:
  \<open>meetsRequirements\<close> is \<open>w * h \<ge> minArea\<close> and \<open>2 * (w + h) \<ge> minPerimeter\<close>, and
  the status that \<open>renderEnclosure\<close> shows is the three-way status of the specification.
\<close>

lemma enclosureStatus_spec:
  assumes "findAnimal cats enc = Some a"
    and "numericStore st" and "numeric enc"
    and "isNum (minArea a)" and "isNum (minPerimeter a)"
  shows "(meetsRequirements cats enc \<longleftrightarrow> meetsRequirement_spec a enc) \<and>
         (isValidPlacement st enc \<longleftrightarrow> placementValid_spec st enc) \<and>
         enclosureStatus cats st enc = status_spec st a enc \<and>
         summaryRow cats enc =
           Some (ival (width enc) * ival (height enc) < ival (minArea a),
                 2 * (ival (width enc) + ival (height enc)) < ival (minPerimeter a),
                 \<not> meetsRequirement_spec a enc) \<and>
         (width enc = Num 4 \<and> height enc = Num 3 \<and> minPerimeter a = Num 14 \<and>
          placementValid_spec st enc \<longrightarrow>
            (minArea a = Num 12 \<longrightarrow> enclosureStatus cats st enc = StatusOk) \<and>
            (minArea a = Num 20 \<longrightarrow> enclosureStatus cats st enc = StatusWarning))"
proof -
  obtain x y w h where g: "gridX enc = Num x" "gridY enc = Num y" "width enc = Num w" "height enc = Num h"
    using numeric_fields [OF assms(3)] by blast
  obtain ma mp where q: "minArea a = Num ma" "minPerimeter a = Num mp"
    using assms(4,5) isNum_ival by blast
  have m: "meetsRequirements cats enc \<longleftrightarrow> meetsRequirement_spec a enc"
    by (simp add: meetsRequirements_def assms(1) meetsRequirement_spec_def area_def perimeter_def
        g q jge_def)
  note v = isValidPlacement_iff [OF assms(2,3)]
  have s: "enclosureStatus cats st enc = status_spec st a enc"
    by (simp add: enclosureStatus_def status_spec_def m v)
  have row: "summaryRow cats enc =
           Some (ival (width enc) * ival (height enc) < ival (minArea a),
                 2 * (ival (width enc) + ival (height enc)) < ival (minPerimeter a),
                 \<not> meetsRequirement_spec a enc)"
    by (auto simp: summaryRow_def assms(1) meetsRequirement_spec_def area_def perimeter_def g q Let_def)
  have ex: "(minArea a = Num 12 \<longrightarrow> enclosureStatus cats st enc = StatusOk) \<and>
            (minArea a = Num 20 \<longrightarrow> enclosureStatus cats st enc = StatusWarning)"
    if "width enc = Num 4" "height enc = Num 3" "minPerimeter a = Num 14" "placementValid_spec st enc"
    using that by (simp add: s status_spec_def meetsRequirement_spec_def)
  from m v s row ex show ?thesis by blast
qed

lemma enclosureStatus_spec_example:
  "findAnimal exampleCats (heap exampleZoo 2) = Some \<lparr>animal_id = ''lion'', minPerimeter = Num 14, minArea = Num 12\<rparr> \<and>
   findAnimal exampleCats zebraPen = Some \<lparr>animal_id = ''zebra'', minPerimeter = Num 14, minArea = Num 20\<rparr> \<and>
   numericStore exampleZoo \<and> numeric (heap exampleZoo 2) \<and> numeric zebraPen \<and>
   geometryOf (heap exampleZoo 2) = \<lparr>g_gridX = Num 0, g_gridY = Num 0, g_width = Num 4, g_height = Num 3\<rparr> \<and>
   placementValid_spec exampleZoo (heap exampleZoo 2) \<and> placementValid_spec exampleZoo zebraPen \<and>
   enclosureStatus exampleCats exampleZoo (heap exampleZoo 2) = StatusOk \<and>
   enclosureStatus exampleCats exampleZoo zebraPen = StatusWarning \<and>
   summaryRow exampleCats zebraPen = Some (True, False, True) \<and>
   enclosureStatus exampleCats (mouseMoves gridRect [overEnclosure]
       (handleGridMouseDown gridRect None (HitBuilding ''restaurant-1'') pressRestaurant exampleZoo))
       (heap exampleZoo 2) = StatusInvalid"
proof -
  let ?lion = "\<lparr>animal_id = ''lion'', minPerimeter = Num 14, minArea = Num 12\<rparr>"
  let ?zebra = "\<lparr>animal_id = ''zebra'', minPerimeter = Num 14, minArea = Num 20\<rparr>"
  have f: "findAnimal exampleCats (heap exampleZoo 2) = Some ?lion"
    "findAnimal exampleCats zebraPen = Some ?zebra" by code_simp+
  have n: "numericStore exampleZoo" "numeric (heap exampleZoo 2)" "numeric zebraPen" by code_simp+
  have q: "isNum (minArea ?lion)" "isNum (minPerimeter ?lion)" "isNum (minArea ?zebra)"
    "isNum (minPerimeter ?zebra)" by simp_all
  have g: "geometryOf (heap exampleZoo 2) = \<lparr>g_gridX = Num 0, g_gridY = Num 0, g_width = Num 4, g_height = Num 3\<rparr>"
    by code_simp
  have wh: "width (heap exampleZoo 2) = Num 4" "height (heap exampleZoo 2) = Num 3"
    "width zebraPen = Num 4" "height zebraPen = Num 3" by code_simp+
  have p: "placementValid_spec exampleZoo (heap exampleZoo 2)" "placementValid_spec exampleZoo zebraPen"
    by code_simp+
  have r: "summaryRow exampleCats zebraPen = Some (True, False, True)" by code_simp
  have inv: "enclosureStatus exampleCats (mouseMoves gridRect [overEnclosure]
       (handleGridMouseDown gridRect None (HitBuilding ''restaurant-1'') pressRestaurant exampleZoo))
       (heap exampleZoo 2) = StatusInvalid" by code_simp
  have l: "minArea ?lion = Num 12" "minPerimeter ?lion = Num 14" "minArea ?zebra = Num 20"
    "minPerimeter ?zebra = Num 14" by simp_all
  from enclosureStatus_spec [OF f(1) n(1) n(2) q(1) q(2)] wh p l
  have ok: "enclosureStatus exampleCats exampleZoo (heap exampleZoo 2) = StatusOk" by blast
  from enclosureStatus_spec [OF f(2) n(1) n(3) q(3) q(4)] wh p l
  have warn: "enclosureStatus exampleCats exampleZoo zebraPen = StatusWarning" by blast
  from f n g p ok warn r inv show ?thesis by blast
qed

text \<open>
  Claim C8 fails in the same store: \<open>renderEnclosure\<close> takes the placement of the lion's
  4 by 3 enclosure for invalid, because \<open>checkOverlap\<close> reports the entity with \<open>NaN\<close>
  geometry as overlapping. The enclosure is in bounds, overlaps nothing and meets the
  lion's requirement (area 12, perimeter 14), so its status is ok by the three-way rule;
  the same enclosure in a store of integers is shown as ok.
\<close>

theorem enclosureStatus_beside_NaN:
  "stored nanZoo =
     [\<lparr>eid = ''giftshop-1'', gridX = NaN, gridY = Num 0, width = Num 3, height = Num 2, animal = None\<rparr>,
      \<lparr>eid = ''enclosure-1'', gridX = Num 10, gridY = Num 0, width = Num 4, height = Num 3,
       animal = Some ''lion''\<rparr>] \<and>
   heap nanZoo 1 = \<lparr>eid = ''enclosure-1'', gridX = Num 10, gridY = Num 0, width = Num 4, height = Num 3,
       animal = Some ''lion''\<rparr> \<and>
   findAnimal exampleCats (heap nanZoo 1) =
     Some \<lparr>animal_id = ''lion'', minPerimeter = Num 14, minArea = Num 12\<rparr> \<and>
   fitsInGrid (heap nanZoo 1) \<and>
   \<not> (\<exists>b \<in> set (stored nanZoo). eid b \<noteq> ''enclosure-1'' \<and> overlapsJS (heap nanZoo 1) b) \<and>
   meetsRequirements exampleCats (heap nanZoo 1) \<and>
   checkOverlap nanZoo (Num 10) (Num 0) (Num 4) (Num 3) (Some ''enclosure-1'') \<and>
   enclosureStatus exampleCats nanZoo (heap nanZoo 1) = StatusInvalid \<and>
   enclosureStatus exampleCats (snd (loadFromURL exampleCats (Some ''000..0a043'') initialState))
     (heap nanZoo 1) = StatusOk"
  by code_simp

text \<open>
  Claim C2 fails on \<open>loadFromURL\<close>: it inserts what the string decodes to without the
  overlap check that \<open>handleGridDrop\<close> and the other handlers make. The string
  \<open>000.000\<close> puts the first building and the first decoration on the same cell; dropping
  that decoration there by hand is refused.
\<close>

theorem loadFromURL_overlap:
  "noOverlapInvariant initialState \<and>
   fst (loadFromURL exampleCats (Some ''000.000'') initialState) \<and>
   stored (snd (loadFromURL exampleCats (Some ''000.000'') initialState)) =
     [\<lparr>eid = ''giftshop-1'', gridX = Num 0, gridY = Num 0, width = Num 3, height = Num 2, animal = None\<rparr>,
      \<lparr>eid = ''tree-1'', gridX = Num 0, gridY = Num 0, width = Num 1, height = Num 1, animal = None\<rparr>] \<and>
   \<not> noOverlapInvariant (snd (loadFromURL exampleCats (Some ''000.000'') initialState)) \<and>
   stored (handleGridDrop exampleCats gridRect ''tree'' \<lparr>clientX = 5, clientY = 5\<rparr>
             (snd (loadFromURL exampleCats (Some ''000'') initialState))) =
     [\<lparr>eid = ''giftshop-1'', gridX = Num 0, gridY = Num 0, width = Num 3, height = Num 2, animal = None\<rparr>]"
  by code_simp

text \<open>
  Claim C5 fails on \<open>loadFromURL\<close>: it calls \<open>addBuilding\<close> without the test for a
  building type that is already placed, and pushes enclosures without the test for an
  animal that already has one, which \<open>handleGridDrop\<close> and \<open>addEnclosure\<close> make. The
  string \<open>0000a0..00a110aa11\<close> loads two gift shops and two enclosures of the first animal,
  none of them overlapping.
\<close>

theorem loadFromURL_duplicates:
  "uniquenessInvariant exampleCats initialState \<and>
   fst (loadFromURL exampleCats (Some ''0000a0..00a110aa11'') initialState) \<and>
   map eid (buildingObjs (snd (loadFromURL exampleCats (Some ''0000a0..00a110aa11'') initialState))) =
     [''giftshop-1'', ''giftshop-2''] \<and>
   map animal (enclosureObjs (snd (loadFromURL exampleCats (Some ''0000a0..00a110aa11'') initialState))) =
     [Some ''lion'', Some ''lion''] \<and>
   noOverlapInvariant (snd (loadFromURL exampleCats (Some ''0000a0..00a110aa11'') initialState)) \<and>
   \<not> uniquenessInvariant exampleCats (snd (loadFromURL exampleCats (Some ''0000a0..00a110aa11'') initialState)) \<and>
   map eid (buildingObjs (handleGridDrop exampleCats gridRect ''giftshop'' \<lparr>clientX = 205, clientY = 5\<rparr>
             (snd (loadFromURL exampleCats (Some ''000'') initialState)))) = [''giftshop-1'']"
  by code_simp

end
